theory Spec2Isabelle
  imports Complex_Main "HOL-Library.Char_ord" "HOL-Library.List_Lexorder"
begin

section \<open>Python values and JSON documents\<close>

text \<open>
  The settings manager stores whatever value it is handed (\<^verbatim>\<open>set_setting(key, value: Any)\<close>),
  and Python checks no type annotation at run time. A field therefore holds a Python
  value: \<^verbatim>\<open>None\<close>, a \<^verbatim>\<open>bool\<close>, an \<^verbatim>\<open>int\<close> (unbounded), a \<^verbatim>\<open>float\<close>, a \<^verbatim>\<open>str\<close> (the bytes of
  its UTF-8 encoding), a \<^verbatim>\<open>list\<close>, a \<^verbatim>\<open>tuple\<close>, a \<^verbatim>\<open>dict\<close> with string keys (an
  association list in insertion order; a dictionary has each key once), or some other
  object that the \<^verbatim>\<open>json\<close> module cannot encode and that has no order with the
  integers (a \<^verbatim>\<open>set\<close>, say), of which only the identity is kept.

  A \<^verbatim>\<open>float\<close> is a finite number, given by its value, or one of the three special values.
  Only its comparisons with integers matter here, and these are exact in Python.
\<close>

datatype pyfloat = Finite rat | PosInf | NegInf | NaN

datatype pyval =
    PNone
  | PBool bool
  | PInt int
  | PFloat pyfloat
  | PStr string
  | PList "pyval list"
  | PTuple "pyval list"
  | PDict "(string \<times> pyval) list"
  | PObject nat

text \<open>
  The text of a file is not modelled character by character. A file that \<^verbatim>\<open>json.load\<close>
  accepts is represented by the JSON document it holds (the members of an object in the
  order of the text, a repeated key as often as it is written; \<^verbatim>\<open>NaN\<close>, \<^verbatim>\<open>Infinity\<close> and
  \<^verbatim>\<open>-Infinity\<close> are numbers to \<^verbatim>\<open>json.load\<close>). Any other text is \<open>Junk\<close>: empty, truncated
  or malformed text, and text with an integer literal longer than the interpreter
  converts.
\<close>

datatype json =
    JNull
  | JBool bool
  | JInt int
  | JFloat pyfloat
  | JStr string
  | JArray "json list"
  | JObject "(string \<times> json) list"

text \<open>
  \<^verbatim>\<open>d[k] = v\<close> on a dictionary: a key that is there keeps its place and takes the new
  value, a new key goes to the end. \<^verbatim>\<open>dict(pairs)\<close> stores the pairs one after the other,
  so of a repeated key the last value stays.
\<close>

fun dict_set :: "string \<Rightarrow> 'v \<Rightarrow> (string \<times> 'v) list \<Rightarrow> (string \<times> 'v) list" where
  "dict_set k v [] = [(k, v)]"
| "dict_set k v ((k', v') # rest) =
     (if k' = k then (k', v) # rest else (k', v') # dict_set k v rest)"

definition dict_of_pairs :: "(string \<times> 'v) list \<Rightarrow> (string \<times> 'v) list" where
  "dict_of_pairs ps = fold (\<lambda>(k, v). dict_set k v) ps []"

text \<open>\<^verbatim>\<open>json.load\<close>: the Python value of a document.\<close>

fun of_json :: "json \<Rightarrow> pyval" where
  "of_json JNull = PNone"
| "of_json (JBool b) = PBool b"
| "of_json (JInt n) = PInt n"
| "of_json (JFloat x) = PFloat x"
| "of_json (JStr s) = PStr s"
| "of_json (JArray js) = PList (map of_json js)"
| "of_json (JObject kvs) = PDict (dict_of_pairs (map (\<lambda>(k, j). (k, of_json j)) kvs))"

text \<open>
  \<^verbatim>\<open>json.dump\<close>: the document of a Python value; \<open>None\<close> where the encoder raises
  \<^verbatim>\<open>TypeError\<close>. A tuple is written as an array, like a list. The limit that the
  interpreter puts on the number of digits of an integer it converts is not modelled;
  it makes a write fail, and the statements below about a write are made for one that
  succeeded.
\<close>

fun to_json :: "pyval \<Rightarrow> json option" where
  "to_json PNone = Some JNull"
| "to_json (PBool b) = Some (JBool b)"
| "to_json (PInt n) = Some (JInt n)"
| "to_json (PFloat x) = Some (JFloat x)"
| "to_json (PStr s) = Some (JStr s)"
| "to_json (PList vs) = map_option JArray (those (map to_json vs))"
| "to_json (PTuple vs) = map_option JArray (those (map to_json vs))"
| "to_json (PDict kvs) =
     map_option JObject (those (map (\<lambda>(k, v). map_option (Pair k) (to_json v)) kvs))"
| "to_json (PObject n) = None"

text \<open>
  The values that a dump followed by a load gives back as they were: \<^verbatim>\<open>None\<close>, a
  \<^verbatim>\<open>bool\<close>, an \<^verbatim>\<open>int\<close>, a \<^verbatim>\<open>str\<close>, and lists and dictionaries of such values.
\<close>

fun json_exact :: "pyval \<Rightarrow> bool" where
  "json_exact PNone = True"
| "json_exact (PBool b) = True"
| "json_exact (PInt n) = True"
| "json_exact (PFloat x) = False"
| "json_exact (PStr s) = True"
| "json_exact (PList vs) = list_all json_exact vs"
| "json_exact (PTuple vs) = False"
| "json_exact (PDict kvs) = (distinct (map fst kvs) \<and> list_all (\<lambda>(k, v). json_exact v) kvs)"
| "json_exact (PObject n) = False"

section \<open>The clock\<close>

text \<open>
  \<^verbatim>\<open>datetime.now()\<close> is an input of the model: every operation that reads the clock takes
  the reading as its first argument.
\<close>

record datetime =
  year :: nat
  month :: nat
  day :: nat
  hour :: nat
  minute :: nat
  second :: nat
  microsecond :: nat

text \<open>Decimal notation, and zero padding to a width (\<^verbatim>\<open>%04d\<close>, \<^verbatim>\<open>%02d\<close>, \<^verbatim>\<open>%06d\<close>).\<close>

definition digit_char :: "nat \<Rightarrow> char" where
  "digit_char d = ''0123456789'' ! d"

fun digits :: "nat \<Rightarrow> string" where
  "digits n = (if n < 10 then [digit_char n]
               else digits (n div 10) @ [digit_char (n mod 10)])"

declare digits.simps [simp del]

definition zpad :: "nat \<Rightarrow> nat \<Rightarrow> string" where
  "zpad w n = replicate (w - length (digits n)) (CHR ''0'') @ digits n"

text \<open>\<^verbatim>\<open>datetime.isoformat()\<close>: the fraction is printed only when it is not zero.\<close>

definition isoformat :: "datetime \<Rightarrow> string" where
  "isoformat d =
     zpad 4 (year d) @ ''-'' @ zpad 2 (month d) @ ''-'' @ zpad 2 (day d) @ ''T'' @
     zpad 2 (hour d) @ '':'' @ zpad 2 (minute d) @ '':'' @ zpad 2 (second d) @
     (if microsecond d = 0 then [] else ''.'' @ zpad 6 (microsecond d))"

text \<open>
  \<^verbatim>\<open>datetime.strftime("%Y%m%d_%H%M%S")\<close>; the C library prints the year as it is, without
  padding.
\<close>

definition strftime_compact :: "datetime \<Rightarrow> string" where
  "strftime_compact d =
     digits (year d) @ zpad 2 (month d) @ zpad 2 (day d) @ ''_'' @
     zpad 2 (hour d) @ zpad 2 (minute d) @ zpad 2 (second d)"

section \<open>UserSettings\<close>

text \<open>
  The dataclass has 34 fields. The manager reaches them by name (\<^verbatim>\<open>getattr\<close>,
  \<^verbatim>\<open>setattr\<close>, \<^verbatim>\<open>asdict\<close>, \<^verbatim>\<open>UserSettings(**data)\<close>), so the fields are an
  enumeration and an instance maps each field to its value.
\<close>

datatype field =
    Image_default_layout
  | Image_default_spacing
  | Image_default_quality
  | Image_default_resize_mode
  | Image_default_filter
  | Image_add_watermark
  | Image_watermark_text
  | Image_watermark_position
  | Image_watermark_opacity
  | Text_default_separator
  | Text_default_encoding
  | Text_add_line_numbers
  | Text_add_timestamps
  | Text_strip_whitespace
  | Text_markdown_export
  | Output_use_timestamp
  | Output_auto_overwrite
  | Output_create_backup
  | Output_default_directory
  | Ui_show_file_size
  | Ui_show_statistics
  | Ui_confirm_before_process
  | Ui_clear_screen
  | Ui_color_output
  | Performance_max_workers
  | Performance_chunk_size
  | Performance_enable_cache
  | Performance_cache_size_mb
  | Advanced_debug_mode
  | Advanced_log_level
  | Advanced_backup_count
  | Advanced_auto_cleanup
  | Last_modified
  | Version

text \<open>\<^verbatim>\<open>dataclasses.fields\<close>: the fields in the order of their declaration.\<close>

definition dataclass_fields :: "field list" where
  "dataclass_fields =
    [Image_default_layout, Image_default_spacing, Image_default_quality,
     Image_default_resize_mode, Image_default_filter, Image_add_watermark,
     Image_watermark_text, Image_watermark_position, Image_watermark_opacity,
     Text_default_separator, Text_default_encoding, Text_add_line_numbers,
     Text_add_timestamps, Text_strip_whitespace, Text_markdown_export,
     Output_use_timestamp, Output_auto_overwrite, Output_create_backup,
     Output_default_directory,
     Ui_show_file_size, Ui_show_statistics, Ui_confirm_before_process,
     Ui_clear_screen, Ui_color_output,
     Performance_max_workers, Performance_chunk_size, Performance_enable_cache,
     Performance_cache_size_mb,
     Advanced_debug_mode, Advanced_log_level, Advanced_backup_count,
     Advanced_auto_cleanup,
     Last_modified, Version]"

fun field_name :: "field \<Rightarrow> string" where
  "field_name Image_default_layout = ''image_default_layout''"
| "field_name Image_default_spacing = ''image_default_spacing''"
| "field_name Image_default_quality = ''image_default_quality''"
| "field_name Image_default_resize_mode = ''image_default_resize_mode''"
| "field_name Image_default_filter = ''image_default_filter''"
| "field_name Image_add_watermark = ''image_add_watermark''"
| "field_name Image_watermark_text = ''image_watermark_text''"
| "field_name Image_watermark_position = ''image_watermark_position''"
| "field_name Image_watermark_opacity = ''image_watermark_opacity''"
| "field_name Text_default_separator = ''text_default_separator''"
| "field_name Text_default_encoding = ''text_default_encoding''"
| "field_name Text_add_line_numbers = ''text_add_line_numbers''"
| "field_name Text_add_timestamps = ''text_add_timestamps''"
| "field_name Text_strip_whitespace = ''text_strip_whitespace''"
| "field_name Text_markdown_export = ''text_markdown_export''"
| "field_name Output_use_timestamp = ''output_use_timestamp''"
| "field_name Output_auto_overwrite = ''output_auto_overwrite''"
| "field_name Output_create_backup = ''output_create_backup''"
| "field_name Output_default_directory = ''output_default_directory''"
| "field_name Ui_show_file_size = ''ui_show_file_size''"
| "field_name Ui_show_statistics = ''ui_show_statistics''"
| "field_name Ui_confirm_before_process = ''ui_confirm_before_process''"
| "field_name Ui_clear_screen = ''ui_clear_screen''"
| "field_name Ui_color_output = ''ui_color_output''"
| "field_name Performance_max_workers = ''performance_max_workers''"
| "field_name Performance_chunk_size = ''performance_chunk_size''"
| "field_name Performance_enable_cache = ''performance_enable_cache''"
| "field_name Performance_cache_size_mb = ''performance_cache_size_mb''"
| "field_name Advanced_debug_mode = ''advanced_debug_mode''"
| "field_name Advanced_log_level = ''advanced_log_level''"
| "field_name Advanced_backup_count = ''advanced_backup_count''"
| "field_name Advanced_auto_cleanup = ''advanced_auto_cleanup''"
| "field_name Last_modified = ''last_modified''"
| "field_name Version = ''version''"

text \<open>The field a name stands for, if any.\<close>

definition field_of_name :: "string \<Rightarrow> field option" where
  "field_of_name key = find (\<lambda>f. field_name f = key) dataclass_fields"

text \<open>The annotated type of each field. Nothing enforces it.\<close>

datatype pytype = TStr | TInt | TBool

fun field_type :: "field \<Rightarrow> pytype" where
  "field_type Image_default_layout = TStr"
| "field_type Image_default_spacing = TInt"
| "field_type Image_default_quality = TInt"
| "field_type Image_default_resize_mode = TStr"
| "field_type Image_default_filter = TStr"
| "field_type Image_add_watermark = TBool"
| "field_type Image_watermark_text = TStr"
| "field_type Image_watermark_position = TStr"
| "field_type Image_watermark_opacity = TInt"
| "field_type Text_default_separator = TStr"
| "field_type Text_default_encoding = TStr"
| "field_type Text_add_line_numbers = TBool"
| "field_type Text_add_timestamps = TBool"
| "field_type Text_strip_whitespace = TBool"
| "field_type Text_markdown_export = TBool"
| "field_type Output_use_timestamp = TBool"
| "field_type Output_auto_overwrite = TBool"
| "field_type Output_create_backup = TBool"
| "field_type Output_default_directory = TStr"
| "field_type Ui_show_file_size = TBool"
| "field_type Ui_show_statistics = TBool"
| "field_type Ui_confirm_before_process = TBool"
| "field_type Ui_clear_screen = TBool"
| "field_type Ui_color_output = TBool"
| "field_type Performance_max_workers = TInt"
| "field_type Performance_chunk_size = TInt"
| "field_type Performance_enable_cache = TBool"
| "field_type Performance_cache_size_mb = TInt"
| "field_type Advanced_debug_mode = TBool"
| "field_type Advanced_log_level = TStr"
| "field_type Advanced_backup_count = TInt"
| "field_type Advanced_auto_cleanup = TBool"
| "field_type Last_modified = TStr"
| "field_type Version = TStr"

text \<open>\<^verbatim>\<open>isinstance(v, t)\<close>; a \<^verbatim>\<open>bool\<close> is an \<^verbatim>\<open>int\<close> in Python.\<close>

fun isinstance :: "pyval \<Rightarrow> pytype \<Rightarrow> bool" where
  "isinstance (PStr s) t = (t = TStr)"
| "isinstance (PInt n) t = (t = TInt)"
| "isinstance (PFloat x) t = False"
| "isinstance (PBool b) t = (t = TInt \<or> t = TBool)"
| "isinstance PNone t = False"
| "isinstance (PList vs) t = False"
| "isinstance (PTuple vs) t = False"
| "isinstance (PDict kvs) t = False"
| "isinstance (PObject n) t = False"

text \<open>
  The default of each field. That of \<^verbatim>\<open>last_modified\<close> is a factory that reads the clock
  when the instance is built. The watermark text begins with the copyright sign, two
  bytes in UTF-8.
\<close>

fun default_value :: "datetime \<Rightarrow> field \<Rightarrow> pyval" where
  "default_value now Image_default_layout = PStr ''vertical''"
| "default_value now Image_default_spacing = PInt 10"
| "default_value now Image_default_quality = PInt 95"
| "default_value now Image_default_resize_mode = PStr ''none''"
| "default_value now Image_default_filter = PStr ''none''"
| "default_value now Image_add_watermark = PBool False"
| "default_value now Image_watermark_text = PStr ([CHR 0xC2, CHR 0xA9] @ '' 2024'')"
| "default_value now Image_watermark_position = PStr ''bottom-right''"
| "default_value now Image_watermark_opacity = PInt 128"
| "default_value now Text_default_separator = PStr ''simple''"
| "default_value now Text_default_encoding = PStr ''utf-8''"
| "default_value now Text_add_line_numbers = PBool False"
| "default_value now Text_add_timestamps = PBool False"
| "default_value now Text_strip_whitespace = PBool False"
| "default_value now Text_markdown_export = PBool False"
| "default_value now Output_use_timestamp = PBool True"
| "default_value now Output_auto_overwrite = PBool False"
| "default_value now Output_create_backup = PBool True"
| "default_value now Output_default_directory = PStr ''output''"
| "default_value now Ui_show_file_size = PBool True"
| "default_value now Ui_show_statistics = PBool True"
| "default_value now Ui_confirm_before_process = PBool True"
| "default_value now Ui_clear_screen = PBool False"
| "default_value now Ui_color_output = PBool True"
| "default_value now Performance_max_workers = PInt 4"
| "default_value now Performance_chunk_size = PInt 8192"
| "default_value now Performance_enable_cache = PBool True"
| "default_value now Performance_cache_size_mb = PInt 128"
| "default_value now Advanced_debug_mode = PBool False"
| "default_value now Advanced_log_level = PStr ''INFO''"
| "default_value now Advanced_backup_count = PInt 5"
| "default_value now Advanced_auto_cleanup = PBool True"
| "default_value now Last_modified = PStr (isoformat now)"
| "default_value now Version = PStr ''2.0.0''"

text \<open>
  An instance: the value of every field, and the attributes other than fields that
  have been set on it (\<^verbatim>\<open>setattr\<close> on a dataclass without slots stores any name in the
  instance dictionary).
\<close>

record UserSettings =
  attr :: "field \<Rightarrow> pyval"
  extra :: "(string \<times> pyval) list"

text \<open>
  The class carries one more attribute that the source spells out, its docstring,
  which Python exposes as \<^verbatim>\<open>__doc__\<close> on the class and on every instance. The other
  names that the runtime itself puts on an object, all of the form \<^verbatim>\<open>__x__\<close>
  (\<^verbatim>\<open>__class__\<close>, \<^verbatim>\<open>__dict__\<close>, \<^verbatim>\<open>__init__\<close> and the other methods the decorator
  generates), are not part of the model: what \<open>getattr\<close>, \<open>hasattr\<close> and \<open>setattr\<close>
  below say of such a name is not what Python does, and no statement is made about them.
\<close>

definition class_doc :: string where
  "class_doc = ''User preferences data class''"

definition class_attr :: "string \<Rightarrow> pyval option" where
  "class_attr key = (if key = ''__doc__'' then Some (PStr class_doc) else None)"

datatype error =
    FileNotFoundError
  | IsADirectoryError
  | PermissionError
  | OSError
  | JSONDecodeError
  | TypeError
  | AttributeError

text \<open>
  \<^verbatim>\<open>getattr(obj, key)\<close>: the instance first (fields, then other instance attributes),
  then the class.
\<close>

definition getattr :: "UserSettings \<Rightarrow> string \<Rightarrow> error + pyval" where
  "getattr obj key =
     (case field_of_name key of
        Some f \<Rightarrow> Inr (attr obj f)
      | None \<Rightarrow>
          (case map_of (extra obj) key of
             Some v \<Rightarrow> Inr v
           | None \<Rightarrow>
               (case class_attr key of
                  Some v \<Rightarrow> Inr v
                | None \<Rightarrow> Inl AttributeError)))"

text \<open>\<^verbatim>\<open>getattr(obj, key, default)\<close> and \<^verbatim>\<open>hasattr(obj, key)\<close>\<close>

definition getattr_default :: "UserSettings \<Rightarrow> string \<Rightarrow> pyval \<Rightarrow> pyval" where
  "getattr_default obj key dflt =
     (case getattr obj key of Inr v \<Rightarrow> v | Inl e \<Rightarrow> dflt)"

definition hasattr :: "UserSettings \<Rightarrow> string \<Rightarrow> bool" where
  "hasattr obj key = (case getattr obj key of Inr v \<Rightarrow> True | Inl e \<Rightarrow> False)"

text \<open>\<^verbatim>\<open>setattr(obj, key, value)\<close>\<close>

definition setattr :: "UserSettings \<Rightarrow> string \<Rightarrow> pyval \<Rightarrow> UserSettings" where
  "setattr obj key v =
     (case field_of_name key of
        Some f \<Rightarrow> obj\<lparr>attr := (attr obj)(f := v)\<rparr>
      | None \<Rightarrow> obj\<lparr>extra := (key, v) # filter (\<lambda>kv. fst kv \<noteq> key) (extra obj)\<rparr>)"

text \<open>
  \<^verbatim>\<open>UserSettings(**kwargs)\<close>: a keyword that is not a field raises \<^verbatim>\<open>TypeError\<close>
  before anything is built; a field without a keyword takes its default.
\<close>

definition UserSettings_init :: "datetime \<Rightarrow> (string \<times> pyval) list \<Rightarrow> error + UserSettings" where
  "UserSettings_init now kwargs =
     (if list_all (\<lambda>kv. field_of_name (fst kv) \<noteq> None) kwargs
      then Inr \<lparr>attr = (\<lambda>f. case map_of kwargs (field_name f) of
                                Some v \<Rightarrow> v
                              | None \<Rightarrow> default_value now f),
                extra = []\<rparr>
      else Inl TypeError)"

text \<open>\<^verbatim>\<open>UserSettings()\<close>\<close>

definition UserSettings_default :: "datetime \<Rightarrow> UserSettings" where
  "UserSettings_default now = \<lparr>attr = default_value now, extra = []\<rparr>"

text \<open>\<^verbatim>\<open>**data\<close>: the argument must be a mapping.\<close>

fun unpack :: "pyval \<Rightarrow> error + (string \<times> pyval) list" where
  "unpack (PDict kvs) = Inr kvs"
| "unpack PNone = Inl TypeError"
| "unpack (PBool b) = Inl TypeError"
| "unpack (PInt n) = Inl TypeError"
| "unpack (PFloat x) = Inl TypeError"
| "unpack (PStr s) = Inl TypeError"
| "unpack (PList vs) = Inl TypeError"
| "unpack (PTuple vs) = Inl TypeError"
| "unpack (PObject n) = Inl TypeError"

text \<open>\<^verbatim>\<open>UserSettings(**data)\<close>\<close>

definition UserSettings_from :: "datetime \<Rightarrow> pyval \<Rightarrow> error + UserSettings" where
  "UserSettings_from now data =
     (case unpack data of
        Inl e \<Rightarrow> Inl e
      | Inr kwargs \<Rightarrow> UserSettings_init now kwargs)"

text \<open>\<^verbatim>\<open>dataclasses.asdict\<close>: every field with a copy of its value, in declaration order.\<close>

definition asdict :: "UserSettings \<Rightarrow> (string \<times> pyval) list" where
  "asdict obj = map (\<lambda>f. (field_name f, attr obj f)) dataclass_fields"

section \<open>Files\<close>

type_synonym path = string

datatype content = Doc json | Junk

text \<open>
  What a path leads to: nothing, a file, a directory, or no answer, because a directory
  on the way denies the process the search (\<^verbatim>\<open>stat\<close> fails with \<^verbatim>\<open>EACCES\<close>). In the
  last case nothing can be told about the file, nor done to it.
\<close>

datatype node = File content | Directory | Denied

type_synonym filesystem = "path \<Rightarrow> node option"

text \<open>
  \<^verbatim>\<open>Path.exists()\<close>: false when there is nothing; an error of \<^verbatim>\<open>stat\<close> other than that
  is raised to the caller.
\<close>

definition exists :: "filesystem \<Rightarrow> path \<Rightarrow> error + bool" where
  "exists fs p =
     (case fs p of
        None \<Rightarrow> Inr False
      | Some Denied \<Rightarrow> Inl PermissionError
      | Some n \<Rightarrow> Inr True)"

text \<open>
  \<^verbatim>\<open>with open(p, 'r', encoding='utf-8') as f: data = json.load(f)\<close>
\<close>

definition read_json :: "filesystem \<Rightarrow> path \<Rightarrow> error + pyval" where
  "read_json fs p =
     (case fs p of
        None \<Rightarrow> Inl FileNotFoundError
      | Some Directory \<Rightarrow> Inl IsADirectoryError
      | Some Denied \<Rightarrow> Inl PermissionError
      | Some (File Junk) \<Rightarrow> Inl JSONDecodeError
      | Some (File (Doc j)) \<Rightarrow> Inr (of_json j))"

text \<open>
  What the operating system does to a write is an input of the model as well: it lets
  it through, refuses to open the file, or fails once the file is open.
\<close>

datatype fault = NoFault | OpenFails | WriteFails

text \<open>
  \<^verbatim>\<open>with open(p, 'w', encoding='utf-8') as f: json.dump(v, f, indent=2)\<close>

  Opening for writing truncates the file. \<^verbatim>\<open>json.dump\<close> then writes the text piece by
  piece, so a failure after the open (of the device, or of the encoder on a value it
  cannot encode) leaves a proper prefix of the text behind, which is no JSON document.
\<close>

definition write_json :: "fault \<Rightarrow> path \<Rightarrow> pyval \<Rightarrow> filesystem \<Rightarrow> (error + unit) \<times> filesystem" where
  "write_json flt p v fs =
     (if flt = OpenFails then (Inl OSError, fs)
      else if fs p = Some Directory then (Inl IsADirectoryError, fs)
      else if fs p = Some Denied then (Inl PermissionError, fs)
      else if flt = WriteFails then (Inl OSError, fs(p \<mapsto> File Junk))
      else (case to_json v of
              None \<Rightarrow> (Inl TypeError, fs(p \<mapsto> File Junk))
            | Some j \<Rightarrow> (Inr (), fs(p \<mapsto> File (Doc j)))))"

section \<open>SettingsManager\<close>

text \<open>
  The state the manager works on: the directory \<^verbatim>\<open>config.BASE_DIR\<close>, the files, and the
  manager's own \<^verbatim>\<open>settings\<close> and \<^verbatim>\<open>_original_settings\<close>. Logging is left out.
\<close>

record world =
  base_dir :: path
  disk :: filesystem
  settings :: UserSettings
  original_settings :: "UserSettings option"

definition SETTINGS_FILE :: "world \<Rightarrow> path" where
  "SETTINGS_FILE w = base_dir w @ ''/settings.json''"

text \<open>
  The test \<^verbatim>\<open>self.SETTINGS_FILE.exists()\<close> stands before the \<^verbatim>\<open>try\<close>: what it raises
  reaches the caller. What the reading and the constructor raise is caught.
\<close>

definition load_settings :: "datetime \<Rightarrow> world \<Rightarrow> error + UserSettings" where
  "load_settings now w =
     (case exists (disk w) (SETTINGS_FILE w) of
        Inl e \<Rightarrow> Inl e
      | Inr there \<Rightarrow>
          if there then
            (case read_json (disk w) (SETTINGS_FILE w) of
               Inl e \<Rightarrow> Inr (UserSettings_default now)
             | Inr data \<Rightarrow>
                 (case UserSettings_from now data of
                    Inl e \<Rightarrow> Inr (UserSettings_default now)
                  | Inr s \<Rightarrow> Inr s))
          else Inr (UserSettings_default now))"

text \<open>\<^verbatim>\<open>SettingsManager.__init__\<close>\<close>

definition SettingsManager_init :: "datetime \<Rightarrow> world \<Rightarrow> error + world" where
  "SettingsManager_init now w =
     (case load_settings now w of
        Inl e \<Rightarrow> Inl e
      | Inr s \<Rightarrow> Inr (w\<lparr>settings := s, original_settings := None\<rparr>))"

definition save_settings :: "datetime \<Rightarrow> fault \<Rightarrow> world \<Rightarrow> bool \<times> world" where
  "save_settings now flt w =
     (let w1 = w\<lparr>settings := setattr (settings w) ''last_modified'' (PStr (isoformat now))\<rparr>;
          (r, fs) = write_json flt (SETTINGS_FILE w1) (PDict (asdict (settings w1))) (disk w1)
      in case r of
           Inr u \<Rightarrow> (True, w1\<lparr>disk := fs\<rparr>)
         | Inl e \<Rightarrow> (False, w1\<lparr>disk := fs\<rparr>))"

definition reset_to_defaults :: "datetime \<Rightarrow> world \<Rightarrow> world" where
  "reset_to_defaults now w = w\<lparr>settings := UserSettings_default now\<rparr>"

definition backup_path :: "datetime \<Rightarrow> world \<Rightarrow> path" where
  "backup_path now w = base_dir w @ ''/settings_backup_'' @ strftime_compact now @ ''.json''"

definition backup_settings :: "datetime \<Rightarrow> fault \<Rightarrow> world \<Rightarrow> path option \<times> world" where
  "backup_settings now flt w =
     (let backup_file = backup_path now w;
          (r, fs) = write_json flt backup_file (PDict (asdict (settings w))) (disk w)
      in case r of
           Inr u \<Rightarrow> (Some backup_file, w\<lparr>disk := fs\<rparr>)
         | Inl e \<Rightarrow> (None, w\<lparr>disk := fs\<rparr>))"

definition restore_settings :: "datetime \<Rightarrow> path \<Rightarrow> world \<Rightarrow> bool \<times> world" where
  "restore_settings now backup_file w =
     (case read_json (disk w) backup_file of
        Inl e \<Rightarrow> (False, w)
      | Inr data \<Rightarrow>
          (case UserSettings_from now data of
             Inl e \<Rightarrow> (False, w)
           | Inr s \<Rightarrow> (True, w\<lparr>settings := s\<rparr>)))"

definition export_settings :: "fault \<Rightarrow> path \<Rightarrow> world \<Rightarrow> bool \<times> world" where
  "export_settings flt export_path w =
     (let (r, fs) = write_json flt export_path (PDict (asdict (settings w))) (disk w)
      in case r of
           Inr u \<Rightarrow> (True, w\<lparr>disk := fs\<rparr>)
         | Inl e \<Rightarrow> (False, w\<lparr>disk := fs\<rparr>))"

definition import_settings :: "datetime \<Rightarrow> path \<Rightarrow> world \<Rightarrow> bool \<times> world" where
  "import_settings now import_path w =
     (case read_json (disk w) import_path of
        Inl e \<Rightarrow> (False, w)
      | Inr data \<Rightarrow>
          (case UserSettings_from now data of
             Inl e \<Rightarrow> (False, w)
           | Inr s \<Rightarrow> (True, w\<lparr>settings := s\<rparr>)))"

definition get_setting :: "string \<Rightarrow> pyval \<Rightarrow> world \<Rightarrow> pyval" where
  "get_setting key dflt w = getattr_default (settings w) key dflt"

definition set_setting :: "string \<Rightarrow> pyval \<Rightarrow> world \<Rightarrow> bool \<times> world" where
  "set_setting key v w =
     (if hasattr (settings w) key
      then (True, w\<lparr>settings := setattr (settings w) key v\<rparr>)
      else (False, w))"

definition get_all_settings :: "world \<Rightarrow> (string \<times> pyval) list" where
  "get_all_settings w = asdict (settings w)"

subsection \<open>Validation\<close>

text \<open>
  \<^verbatim>\<open>v < k\<close> and \<^verbatim>\<open>v > k\<close> for an integer literal \<open>k\<close>: defined on \<^verbatim>\<open>int\<close>, \<^verbatim>\<open>bool\<close>
  (\<^verbatim>\<open>True\<close> is 1) and \<^verbatim>\<open>float\<close>, \<^verbatim>\<open>TypeError\<close> on every other value of the model. Every
  comparison with \<^verbatim>\<open>NaN\<close> is false.
\<close>

fun float_lt :: "pyfloat \<Rightarrow> int \<Rightarrow> bool" where
  "float_lt (Finite r) k = (r < of_int k)"
| "float_lt PosInf k = False"
| "float_lt NegInf k = True"
| "float_lt NaN k = False"

fun float_gt :: "pyfloat \<Rightarrow> int \<Rightarrow> bool" where
  "float_gt (Finite r) k = (of_int k < r)"
| "float_gt PosInf k = True"
| "float_gt NegInf k = False"
| "float_gt NaN k = False"

fun py_lt :: "pyval \<Rightarrow> int \<Rightarrow> error + bool" where
  "py_lt (PInt n) k = Inr (n < k)"
| "py_lt (PBool b) k = Inr ((if b then 1 else 0) < k)"
| "py_lt (PFloat x) k = Inr (float_lt x k)"
| "py_lt PNone k = Inl TypeError"
| "py_lt (PStr s) k = Inl TypeError"
| "py_lt (PList vs) k = Inl TypeError"
| "py_lt (PTuple vs) k = Inl TypeError"
| "py_lt (PDict kvs) k = Inl TypeError"
| "py_lt (PObject n) k = Inl TypeError"

fun py_gt :: "pyval \<Rightarrow> int \<Rightarrow> error + bool" where
  "py_gt (PInt n) k = Inr (k < n)"
| "py_gt (PBool b) k = Inr (k < (if b then 1 else 0))"
| "py_gt (PFloat x) k = Inr (float_gt x k)"
| "py_gt PNone k = Inl TypeError"
| "py_gt (PStr s) k = Inl TypeError"
| "py_gt (PList vs) k = Inl TypeError"
| "py_gt (PTuple vs) k = Inl TypeError"
| "py_gt (PDict kvs) k = Inl TypeError"
| "py_gt (PObject n) k = Inl TypeError"

text \<open>\<^verbatim>\<open>a or b\<close>: \<open>b\<close> is evaluated only when \<open>a\<close> is false.\<close>

definition py_or :: "error + bool \<Rightarrow> error + bool \<Rightarrow> error + bool" where
  "py_or a b = (case a of Inl e \<Rightarrow> Inl e | Inr x \<Rightarrow> if x then Inr True else b)"

text \<open>
  The result is a dictionary from category to messages, in insertion order.
  \<^verbatim>\<open>issues.setdefault(cat, []).append(msg)\<close>
\<close>

type_synonym issues = "(string \<times> string list) list"

fun add_issue :: "string \<Rightarrow> string \<Rightarrow> issues \<Rightarrow> issues" where
  "add_issue cat msg [] = [(cat, [msg])]"
| "add_issue cat msg ((c, ms) # rest) =
     (if c = cat then (c, ms @ [msg]) # rest else (c, ms) # add_issue cat msg rest)"

text \<open>One \<^verbatim>\<open>if cond: issues.setdefault(cat, []).append(msg)\<close> after what came before.\<close>

definition check :: "error + bool \<Rightarrow> string \<Rightarrow> string \<Rightarrow> error + issues \<Rightarrow> error + issues" where
  "check cond cat msg before =
     (case before of
        Inl e \<Rightarrow> Inl e
      | Inr iss \<Rightarrow>
          (case cond of
             Inl e \<Rightarrow> Inl e
           | Inr b \<Rightarrow> Inr (if b then add_issue cat msg iss else iss)))"

definition valid_log_levels :: "string list" where
  "valid_log_levels = [''DEBUG'', ''INFO'', ''WARNING'', ''ERROR'', ''CRITICAL'']"

text \<open>\<^verbatim>\<open>v not in valid_log_levels\<close>: only a string equals a string.\<close>

definition not_in_levels :: "pyval \<Rightarrow> bool" where
  "not_in_levels v = (v \<notin> set (map PStr valid_log_levels))"

definition log_level_message :: string where
  "log_level_message =
     ''Log level must be one of: ['' @
     [CHR 0x27] @ ''DEBUG'' @ [CHR 0x27] @ '', '' @
     [CHR 0x27] @ ''INFO'' @ [CHR 0x27] @ '', '' @
     [CHR 0x27] @ ''WARNING'' @ [CHR 0x27] @ '', '' @
     [CHR 0x27] @ ''ERROR'' @ [CHR 0x27] @ '', '' @
     [CHR 0x27] @ ''CRITICAL'' @ [CHR 0x27] @ '']''"

definition validate_settings :: "world \<Rightarrow> (error + issues) \<times> world" where
  "validate_settings w =
     (let s = attr (settings w);
          i0 = Inr [];
          i1 = check (py_or (py_lt (s Image_default_quality) 1) (py_gt (s Image_default_quality) 100))
                 ''image'' ''Quality must be between 1-100'' i0;
          i2 = check (py_lt (s Image_default_spacing) 0)
                 ''image'' ''Spacing cannot be negative'' i1;
          i3 = check (py_or (py_lt (s Image_watermark_opacity) 0) (py_gt (s Image_watermark_opacity) 255))
                 ''image'' ''Watermark opacity must be between 0-255'' i2;
          i4 = check (py_lt (s Performance_max_workers) 1)
                 ''performance'' ''Max workers must be at least 1'' i3;
          i5 = check (py_lt (s Performance_cache_size_mb) 0)
                 ''performance'' ''Cache size cannot be negative'' i4;
          i6 = check (Inr (not_in_levels (s Advanced_log_level)))
                 ''advanced'' log_level_message i5
      in (i6, w))"

section \<open>The ranges of the specification\<close>

text \<open>
  The specification gives the valid settings as ranges of numbers. \<open>at_least lo v\<close>
  says that the value \<open>v\<close> is a number and \<open>lo \<le> v\<close>, \<open>at_most hi v\<close> that it is a number
  and \<open>v \<le> hi\<close>. \<^verbatim>\<open>NaN\<close> is in no range, and what is no number is in none either.
\<close>

fun at_least :: "int \<Rightarrow> pyval \<Rightarrow> bool" where
  "at_least lo (PInt n) = (lo \<le> n)"
| "at_least lo (PBool b) = (lo \<le> (if b then 1 else 0))"
| "at_least lo (PFloat (Finite r)) = (of_int lo \<le> r)"
| "at_least lo (PFloat PosInf) = True"
| "at_least lo (PFloat NegInf) = False"
| "at_least lo (PFloat NaN) = False"
| "at_least lo PNone = False"
| "at_least lo (PStr s) = False"
| "at_least lo (PList vs) = False"
| "at_least lo (PTuple vs) = False"
| "at_least lo (PDict kvs) = False"
| "at_least lo (PObject n) = False"

fun at_most :: "int \<Rightarrow> pyval \<Rightarrow> bool" where
  "at_most hi (PInt n) = (n \<le> hi)"
| "at_most hi (PBool b) = ((if b then 1 else 0) \<le> hi)"
| "at_most hi (PFloat (Finite r)) = (r \<le> of_int hi)"
| "at_most hi (PFloat PosInf) = False"
| "at_most hi (PFloat NegInf) = True"
| "at_most hi (PFloat NaN) = False"
| "at_most hi PNone = False"
| "at_most hi (PStr s) = False"
| "at_most hi (PList vs) = False"
| "at_most hi (PTuple vs) = False"
| "at_most hi (PDict kvs) = False"
| "at_most hi (PObject n) = False"

section \<open>Scope of the attribute model and example states\<close>

text \<open>
  Names of the form \<^verbatim>\<open>__x__\<close> are reserved by Python for the attributes it puts on every
  object itself. Of these the model knows \<^verbatim>\<open>__doc__\<close> only, so a statement about
  arbitrary keys is made for the keys that are not of this form.
\<close>

definition reserved_name :: "string \<Rightarrow> bool" where
  "reserved_name key \<longleftrightarrow> 4 \<le> length key \<and> take 2 key = ''__'' \<and> take 2 (rev key) = ''__''"

text \<open>Two clock readings, and a manager as it is once built in an empty directory.\<close>

definition t0 :: datetime where
  "t0 = \<lparr>year = 2024, month = 1, day = 15, hour = 9, minute = 30, second = 0, microsecond = 0\<rparr>"

definition t1 :: datetime where
  "t1 = \<lparr>year = 2024, month = 6, day = 1, hour = 12, minute = 0, second = 5,
          microsecond = 250000\<rparr>"

definition fresh_world :: world where
  "fresh_world = \<lparr>base_dir = ''/app'', disk = (\<lambda>p. None),
                   settings = UserSettings_default t0, original_settings = None\<rparr>"

section \<open>Basic facts\<close>

subsection \<open>Field names\<close>

lemma field_of_name_name: "field_of_name (field_name f) = Some f"
  by (cases f) (simp_all add: field_of_name_def dataclass_fields_def)

lemma all_fields: "f \<in> set dataclass_fields"
  by (cases f) (simp_all add: dataclass_fields_def)

lemma find_SomeD: "find P xs = Some x \<Longrightarrow> P x"
  by (induction xs) (auto split: if_splits)

lemma field_of_name_SomeD: "field_of_name k = Some f \<Longrightarrow> field_name f = k"
  unfolding field_of_name_def by (rule find_SomeD)

lemma field_name_inj: "field_name f = field_name g \<Longrightarrow> f = g"
  by (metis field_of_name_name option.inject)

lemma field_of_name_None: "field_of_name k = None \<longleftrightarrow> (\<forall>f. field_name f \<noteq> k)"
  by (auto simp: field_of_name_def find_None_iff all_fields)

lemma field_of_last_modified: "field_of_name ''last_modified'' = Some Last_modified"
  using field_of_name_name [of Last_modified] by simp

lemma field_of_quality: "field_of_name ''image_default_quality'' = Some Image_default_quality"
  using field_of_name_name [of Image_default_quality] by simp

lemma reserved_not_field: "reserved_name key \<Longrightarrow> field_of_name key = None"
proof -
  assume r: "reserved_name key"
  have "\<not> reserved_name (field_name f)" for f
    by (cases f) (simp_all add: reserved_name_def)
  with r show ?thesis
    by (auto simp: field_of_name_None)
qed

subsection \<open>asdict and the constructor\<close>

lemma map_of_names:
  "map_of (map (\<lambda>f. (field_name f, h f)) fs) (field_name g) =
     (if g \<in> set fs then Some (h g) else None)"
  by (induction fs) (auto dest: field_name_inj)

lemma map_of_asdict: "map_of (asdict obj) (field_name f) = Some (attr obj f)"
  by (simp add: asdict_def map_of_names all_fields)

lemma asdict_keys: "list_all (\<lambda>kv. field_of_name (fst kv) \<noteq> None) (asdict obj)"
  by (simp add: asdict_def list_all_iff field_of_name_name)

lemma UserSettings_init_asdict:
  "UserSettings_init now (asdict obj) = Inr \<lparr>attr = attr obj, extra = []\<rparr>"
  using asdict_keys [of obj] by (simp add: UserSettings_init_def map_of_asdict)

lemma UserSettings_init_unknown:
  "(k, v) \<in> set kwargs \<Longrightarrow> field_of_name k = None \<Longrightarrow> UserSettings_init now kwargs = Inl TypeError"
  by (force simp: UserSettings_init_def list_all_iff)

lemma UserSettings_init_known:
  "\<forall>k \<in> fst ` set kwargs. field_of_name k \<noteq> None \<Longrightarrow>
   UserSettings_init now kwargs =
     Inr \<lparr>attr = (\<lambda>f. case map_of kwargs (field_name f) of
                         Some v \<Rightarrow> v | None \<Rightarrow> default_value now f),
          extra = []\<rparr>"
  by (auto simp: UserSettings_init_def list_all_iff)

lemma setattr_field: "setattr obj (field_name f) v = obj\<lparr>attr := (attr obj)(f := v)\<rparr>"
  by (simp add: setattr_def field_of_name_name)

lemma setattr_last_modified:
  "setattr obj ''last_modified'' v = obj\<lparr>attr := (attr obj)(Last_modified := v)\<rparr>"
  using setattr_field [of obj Last_modified v] by simp

lemma setattr_quality:
  "setattr obj ''image_default_quality'' v = obj\<lparr>attr := (attr obj)(Image_default_quality := v)\<rparr>"
  using setattr_field [of obj Image_default_quality v] by simp

lemma hasattr_field: "hasattr obj (field_name f)"
  by (simp add: hasattr_def getattr_def field_of_name_name)

subsection \<open>JSON\<close>

lemma map_of_dict_set: "map_of (dict_set k v al) = (map_of al)(k \<mapsto> v)"
  by (induction al) (auto simp: fun_eq_iff)

lemma keys_dict_set: "fst ` set (dict_set k v al) = insert k (fst ` set al)"
  by (induction al) force+

lemma dict_set_new: "k \<notin> fst ` set al \<Longrightarrow> dict_set k v al = al @ [(k, v)]"
  by (induction al) auto

lemma fold_dict_set_distinct:
  "distinct (map fst (acc @ ps)) \<Longrightarrow> fold (\<lambda>(k, v). dict_set k v) ps acc = acc @ ps"
proof (induction ps arbitrary: acc)
  case Nil
  then show ?case by simp
next
  case (Cons kv ps)
  obtain k v where kv: "kv = (k, v)" by (cases kv)
  with Cons.prems have new: "k \<notin> fst ` set acc" and "distinct (map fst ((acc @ [(k, v)]) @ ps))"
    by auto
  from Cons.IH [OF this(2)] new kv show ?case
    by (simp add: dict_set_new)
qed

lemma dict_of_pairs_distinct: "distinct (map fst ps) \<Longrightarrow> dict_of_pairs ps = ps"
  using fold_dict_set_distinct [of "[]" ps] by (simp add: dict_of_pairs_def)

lemma map_of_fold_dict_set:
  "map_of (fold (\<lambda>(k, v). dict_set k v) ps acc) = map_of acc ++ map_of (rev ps)"
proof (induction ps arbitrary: acc)
  case Nil
  then show ?case by simp
next
  case (Cons kv ps)
  obtain k v where kv: "kv = (k, v)" by (cases kv)
  have "map_of (dict_set k v acc) ++ map_of (rev ps) = map_of acc ++ map_of (rev ps @ [(k, v)])"
    by (auto simp: fun_eq_iff map_of_dict_set map_add_def split: option.splits)
  with Cons.IH [of "dict_set k v acc"] kv show ?case
    by simp
qed

text \<open>Of a repeated key the last value stays.\<close>

lemma map_of_dict_of_pairs: "map_of (dict_of_pairs ps) = map_of (rev ps)"
  by (simp add: dict_of_pairs_def map_of_fold_dict_set)

lemma keys_fold_dict_set:
  "fst ` set (fold (\<lambda>(k, v). dict_set k v) ps acc) = fst ` set acc \<union> fst ` set ps"
proof (induction ps arbitrary: acc)
  case Nil
  then show ?case by simp
next
  case (Cons kv ps)
  obtain k v where "kv = (k, v)" by (cases kv)
  with Cons.IH [of "dict_set k v acc"] show ?case
    by (simp add: keys_dict_set)
qed

lemma keys_dict_of_pairs: "fst ` set (dict_of_pairs ps) = fst ` set ps"
  by (simp add: dict_of_pairs_def keys_fold_dict_set)

lemma those_map_Some: "those (map f xs) = Some ys \<longleftrightarrow> map f xs = map Some ys"
  by (induction xs arbitrary: ys) (auto split: option.splits)

lemma to_json_exact: "json_exact v \<Longrightarrow> \<exists>j. to_json v = Some j \<and> of_json j = v"
proof (induction v rule: json_exact.induct)
  case (6 vs)
  then have "\<forall>v \<in> set vs. \<exists>j. to_json v = Some j \<and> of_json j = v"
    by (auto simp: list_all_iff)
  then obtain g where g: "\<forall>v \<in> set vs. to_json v = Some (g v) \<and> of_json (g v) = v"
    by metis
  then have "map to_json vs = map Some (map g vs)" and rt: "map of_json (map g vs) = vs"
    by (simp_all add: map_idI)
  then have "those (map to_json vs) = Some (map g vs)"
    by (simp only: those_map_Some)
  then have "to_json (PList vs) = Some (JArray (map g vs))"
    by simp
  moreover have "of_json (JArray (map g vs)) = PList vs"
    using rt by simp
  ultimately show ?case by blast
next
  case (8 kvs)
  then have keys: "distinct (map fst kvs)"
    by simp
  from 8 have "\<forall>kv \<in> set kvs. \<exists>j. to_json (snd kv) = Some j \<and> of_json j = snd kv"
    by (auto simp: list_all_iff)
  then obtain g where g: "\<forall>kv \<in> set kvs. to_json (snd kv) = Some (g kv) \<and> of_json (g kv) = snd kv"
    by metis
  let ?js = "map (\<lambda>kv. (fst kv, g kv)) kvs"
  from g have "map (\<lambda>(k, v). map_option (Pair k) (to_json v)) kvs = map Some ?js"
    by (auto simp: case_prod_beta)
  then have "those (map (\<lambda>(k, v). map_option (Pair k) (to_json v)) kvs) = Some ?js"
    by (simp only: those_map_Some)
  then have "to_json (PDict kvs) = Some (JObject ?js)"
    by simp
  moreover from g have "map (\<lambda>(k, j). (k, of_json j)) ?js = kvs"
    by (auto simp: case_prod_beta intro!: map_idI)
  then have "of_json (JObject ?js) = PDict kvs"
    using keys by (simp add: dict_of_pairs_distinct)
  ultimately show ?case by blast
qed simp_all

lemma isinstance_exact: "isinstance v t \<Longrightarrow> json_exact v"
  by (cases v) simp_all

lemma default_exact: "json_exact (default_value now f)"
  by (cases f) simp_all

subsection \<open>Reading and writing\<close>

lemma write_json_Inr:
  "write_json flt p v fs = (Inr u, fs') \<Longrightarrow>
   \<exists>j. to_json v = Some j \<and> fs' = fs(p \<mapsto> File (Doc j))"
  by (auto simp: write_json_def split: if_splits option.splits)

lemma from_asdict: "UserSettings_from now (PDict (asdict obj)) = Inr \<lparr>attr = attr obj, extra = []\<rparr>"
  by (simp add: UserSettings_from_def UserSettings_init_asdict)

lemma map_of_of_json:
  "map_of (map (\<lambda>(k, j). (k, of_json j)) kvs) k = map_option of_json (map_of kvs k)"
  by (induction kvs) auto

text \<open>What the constructor makes of a file's content.\<close>

lemma unpack_object:
  "unpack (of_json (JObject kvs)) = Inr (dict_of_pairs (map (\<lambda>(k, j). (k, of_json j)) kvs))"
  by simp

lemma keys_of_object:
  "fst ` set (dict_of_pairs (map (\<lambda>(k, j). (k, of_json j)) kvs)) = fst ` set kvs"
  by (force simp: keys_dict_of_pairs image_iff)

lemma map_of_object:
  "map_of (dict_of_pairs (map (\<lambda>(k, j). (k, of_json j)) kvs)) k
     = map_option of_json (map_of (rev kvs) k)"
  by (simp add: map_of_dict_of_pairs rev_map map_of_of_json)

lemma from_object_unknown:
  assumes "k \<in> fst ` set kvs" and "field_of_name k = None"
  shows "UserSettings_from now (of_json (JObject kvs)) = Inl TypeError"
proof -
  from assms(1) have "k \<in> fst ` set (dict_of_pairs (map (\<lambda>(k, j). (k, of_json j)) kvs))"
    by (simp only: keys_of_object)
  then obtain v where "(k, v) \<in> set (dict_of_pairs (map (\<lambda>(k, j). (k, of_json j)) kvs))"
    by auto
  from UserSettings_init_unknown [OF this assms(2)] show ?thesis
    by (simp add: UserSettings_from_def del: of_json.simps add: unpack_object)
qed

lemma from_object_known:
  assumes "\<forall>k \<in> fst ` set kvs. field_of_name k \<noteq> None"
  shows "UserSettings_from now (of_json (JObject kvs)) =
           Inr \<lparr>attr = (\<lambda>f. case map_of (rev kvs) (field_name f) of
                               Some j \<Rightarrow> of_json j | None \<Rightarrow> default_value now f),
                extra = []\<rparr>"
proof -
  from assms
  have "\<forall>k \<in> fst ` set (dict_of_pairs (map (\<lambda>(k, j). (k, of_json j)) kvs)).
          field_of_name k \<noteq> None"
    by (simp only: keys_of_object)
  from UserSettings_init_known [OF this, of now] show ?thesis
    by (simp add: UserSettings_from_def unpack_object map_of_object fun_eq_iff
        del: of_json.simps split: option.splits)
qed

text \<open>
  The defaults, value by value: a record built from keyword arguments \<open>m\<close> (read
  through \<open>h\<close>) has, in each field, the argument of that name or else the default that
  the class declares.
\<close>

lemma documented_defaults:
  assumes "\<forall>f. attr s f = (case m (field_name f) of Some x \<Rightarrow> h x | None \<Rightarrow> default_value now f)"
  shows "attr s Image_default_layout = (case m ''image_default_layout'' of Some x \<Rightarrow> h x | None \<Rightarrow> PStr ''vertical'')
     \<and> attr s Image_default_spacing = (case m ''image_default_spacing'' of Some x \<Rightarrow> h x | None \<Rightarrow> PInt 10)
     \<and> attr s Image_default_quality = (case m ''image_default_quality'' of Some x \<Rightarrow> h x | None \<Rightarrow> PInt 95)
     \<and> attr s Image_default_resize_mode = (case m ''image_default_resize_mode'' of Some x \<Rightarrow> h x | None \<Rightarrow> PStr ''none'')
     \<and> attr s Image_default_filter = (case m ''image_default_filter'' of Some x \<Rightarrow> h x | None \<Rightarrow> PStr ''none'')
     \<and> attr s Image_add_watermark = (case m ''image_add_watermark'' of Some x \<Rightarrow> h x | None \<Rightarrow> PBool False)
     \<and> attr s Image_watermark_text = (case m ''image_watermark_text'' of Some x \<Rightarrow> h x | None \<Rightarrow> PStr ([CHR 0xC2, CHR 0xA9] @ '' 2024''))
     \<and> attr s Image_watermark_position = (case m ''image_watermark_position'' of Some x \<Rightarrow> h x | None \<Rightarrow> PStr ''bottom-right'')
     \<and> attr s Image_watermark_opacity = (case m ''image_watermark_opacity'' of Some x \<Rightarrow> h x | None \<Rightarrow> PInt 128)
     \<and> attr s Text_default_separator = (case m ''text_default_separator'' of Some x \<Rightarrow> h x | None \<Rightarrow> PStr ''simple'')
     \<and> attr s Text_default_encoding = (case m ''text_default_encoding'' of Some x \<Rightarrow> h x | None \<Rightarrow> PStr ''utf-8'')
     \<and> attr s Text_add_line_numbers = (case m ''text_add_line_numbers'' of Some x \<Rightarrow> h x | None \<Rightarrow> PBool False)
     \<and> attr s Text_add_timestamps = (case m ''text_add_timestamps'' of Some x \<Rightarrow> h x | None \<Rightarrow> PBool False)
     \<and> attr s Text_strip_whitespace = (case m ''text_strip_whitespace'' of Some x \<Rightarrow> h x | None \<Rightarrow> PBool False)
     \<and> attr s Text_markdown_export = (case m ''text_markdown_export'' of Some x \<Rightarrow> h x | None \<Rightarrow> PBool False)
     \<and> attr s Output_use_timestamp = (case m ''output_use_timestamp'' of Some x \<Rightarrow> h x | None \<Rightarrow> PBool True)
     \<and> attr s Output_auto_overwrite = (case m ''output_auto_overwrite'' of Some x \<Rightarrow> h x | None \<Rightarrow> PBool False)
     \<and> attr s Output_create_backup = (case m ''output_create_backup'' of Some x \<Rightarrow> h x | None \<Rightarrow> PBool True)
     \<and> attr s Output_default_directory = (case m ''output_default_directory'' of Some x \<Rightarrow> h x | None \<Rightarrow> PStr ''output'')
     \<and> attr s Ui_show_file_size = (case m ''ui_show_file_size'' of Some x \<Rightarrow> h x | None \<Rightarrow> PBool True)
     \<and> attr s Ui_show_statistics = (case m ''ui_show_statistics'' of Some x \<Rightarrow> h x | None \<Rightarrow> PBool True)
     \<and> attr s Ui_confirm_before_process = (case m ''ui_confirm_before_process'' of Some x \<Rightarrow> h x | None \<Rightarrow> PBool True)
     \<and> attr s Ui_clear_screen = (case m ''ui_clear_screen'' of Some x \<Rightarrow> h x | None \<Rightarrow> PBool False)
     \<and> attr s Ui_color_output = (case m ''ui_color_output'' of Some x \<Rightarrow> h x | None \<Rightarrow> PBool True)
     \<and> attr s Performance_max_workers = (case m ''performance_max_workers'' of Some x \<Rightarrow> h x | None \<Rightarrow> PInt 4)
     \<and> attr s Performance_chunk_size = (case m ''performance_chunk_size'' of Some x \<Rightarrow> h x | None \<Rightarrow> PInt 8192)
     \<and> attr s Performance_enable_cache = (case m ''performance_enable_cache'' of Some x \<Rightarrow> h x | None \<Rightarrow> PBool True)
     \<and> attr s Performance_cache_size_mb = (case m ''performance_cache_size_mb'' of Some x \<Rightarrow> h x | None \<Rightarrow> PInt 128)
     \<and> attr s Advanced_debug_mode = (case m ''advanced_debug_mode'' of Some x \<Rightarrow> h x | None \<Rightarrow> PBool False)
     \<and> attr s Advanced_log_level = (case m ''advanced_log_level'' of Some x \<Rightarrow> h x | None \<Rightarrow> PStr ''INFO'')
     \<and> attr s Advanced_backup_count = (case m ''advanced_backup_count'' of Some x \<Rightarrow> h x | None \<Rightarrow> PInt 5)
     \<and> attr s Advanced_auto_cleanup = (case m ''advanced_auto_cleanup'' of Some x \<Rightarrow> h x | None \<Rightarrow> PBool True)
     \<and> attr s Last_modified = (case m ''last_modified'' of Some x \<Rightarrow> h x | None \<Rightarrow> PStr (isoformat now))
     \<and> attr s Version = (case m ''version'' of Some x \<Rightarrow> h x | None \<Rightarrow> PStr ''2.0.0'')"
  using assms by (simp cong: option.case_cong)

lemma from_not_object:
  "\<forall>kvs. j \<noteq> JObject kvs \<Longrightarrow> UserSettings_from now (of_json j) = Inl TypeError"
  by (cases j) (simp_all add: UserSettings_from_def)


lemma field_of_name_range: "field_of_name k \<noteq> None \<longleftrightarrow> k \<in> range field_name"
  unfolding field_of_name_None by auto

lemma keys_known:
  "fst ` set kvs \<subseteq> range field_name \<longleftrightarrow> (\<forall>k \<in> fst ` set kvs. field_of_name k \<noteq> None)"
  unfolding field_of_name_range by blast

subsection \<open>The example states\<close>

lemma isoformat_t0: "isoformat t0 = ''2024-01-15T09:30:00''"
  by (simp add: isoformat_def zpad_def digits.simps digit_char_def t0_def)

lemma isoformat_t1: "isoformat t1 = ''2024-06-01T12:00:05.250000''"
  by (simp add: isoformat_def zpad_def digits.simps digit_char_def t1_def)

lemma fresh_world_simps:
  "base_dir fresh_world = ''/app''"
  "disk fresh_world = (\<lambda>p. None)"
  "settings fresh_world = UserSettings_default t0"
  "original_settings fresh_world = None"
  by (simp_all add: fresh_world_def)

text \<open>The example state is what the constructor of the manager leaves in an empty directory.\<close>

lemma fresh_world_built: "SettingsManager_init t0 fresh_world = Inr fresh_world"
  by (simp add: SettingsManager_init_def load_settings_def exists_def fresh_world_def)

section \<open>Loading\<close>

text \<open>
  Where the settings path can be looked up, \<open>load_settings\<close> falls back as the
  specification has it: when the file is absent, holds text that is not JSON, or holds
  a JSON object with a key that is not a field of the record, it returns a record with
  the default in every field, that of \<open>last_modified\<close> being the clock reading of the
  call.
\<close>

lemma load_settings_fallback:
  assumes "disk w (SETTINGS_FILE w) = None
         \<or> disk w (SETTINGS_FILE w) = Some (File Junk)
         \<or> (\<exists>kvs k. disk w (SETTINGS_FILE w) = Some (File (Doc (JObject kvs)))
                  \<and> k \<in> fst ` set kvs \<and> field_of_name k = None)"
  shows "\<exists>s. load_settings now w = Inr s \<and> extra s = []
       \<and> attr s Image_default_layout = PStr ''vertical''
       \<and> attr s Image_default_spacing = PInt 10
       \<and> attr s Image_default_quality = PInt 95
       \<and> attr s Image_default_resize_mode = PStr ''none''
       \<and> attr s Image_default_filter = PStr ''none''
       \<and> attr s Image_add_watermark = PBool False
       \<and> attr s Image_watermark_text = PStr ([CHR 0xC2, CHR 0xA9] @ '' 2024'')
       \<and> attr s Image_watermark_position = PStr ''bottom-right''
       \<and> attr s Image_watermark_opacity = PInt 128
       \<and> attr s Text_default_separator = PStr ''simple''
       \<and> attr s Text_default_encoding = PStr ''utf-8''
       \<and> attr s Text_add_line_numbers = PBool False
       \<and> attr s Text_add_timestamps = PBool False
       \<and> attr s Text_strip_whitespace = PBool False
       \<and> attr s Text_markdown_export = PBool False
       \<and> attr s Output_use_timestamp = PBool True
       \<and> attr s Output_auto_overwrite = PBool False
       \<and> attr s Output_create_backup = PBool True
       \<and> attr s Output_default_directory = PStr ''output''
       \<and> attr s Ui_show_file_size = PBool True
       \<and> attr s Ui_show_statistics = PBool True
       \<and> attr s Ui_confirm_before_process = PBool True
       \<and> attr s Ui_clear_screen = PBool False
       \<and> attr s Ui_color_output = PBool True
       \<and> attr s Performance_max_workers = PInt 4
       \<and> attr s Performance_chunk_size = PInt 8192
       \<and> attr s Performance_enable_cache = PBool True
       \<and> attr s Performance_cache_size_mb = PInt 128
       \<and> attr s Advanced_debug_mode = PBool False
       \<and> attr s Advanced_log_level = PStr ''INFO''
       \<and> attr s Advanced_backup_count = PInt 5
       \<and> attr s Advanced_auto_cleanup = PBool True
       \<and> attr s Last_modified = PStr (isoformat now)
       \<and> attr s Version = PStr ''2.0.0''"
proof -
  have "load_settings now w = Inr (UserSettings_default now)"
    using assms
  proof (elim disjE exE conjE)
    assume "disk w (SETTINGS_FILE w) = None"
    then show ?thesis by (simp add: load_settings_def exists_def)
  next
    assume "disk w (SETTINGS_FILE w) = Some (File Junk)"
    then show ?thesis by (simp add: load_settings_def exists_def read_json_def)
  next
    fix kvs k
    assume "disk w (SETTINGS_FILE w) = Some (File (Doc (JObject kvs)))"
      and "k \<in> fst ` set kvs" and "field_of_name k = None"
    then show ?thesis
      using from_object_unknown [of k kvs now]
      by (simp add: load_settings_def read_json_def exists_def del: of_json.simps)
  qed
  then show ?thesis
    by (intro exI [of _ "UserSettings_default now"]) (simp add: UserSettings_default_def)
qed

text \<open>
  C2 at a settings path that cannot be looked up: the directory denies the process the
  search, so \<^verbatim>\<open>stat\<close> fails with \<^verbatim>\<open>EACCES\<close>, whether the file is there or not. The test
  \<^verbatim>\<open>self.SETTINGS_FILE.exists()\<close> raises \<^verbatim>\<open>PermissionError\<close>, and since it stands before
  the \<^verbatim>\<open>try\<close>, \<open>load_settings\<close> raises it to its caller, and so does the constructor of
  the manager. The claim has \<open>load_settings\<close> return the default record and raise
  nothing.
\<close>

theorem load_settings_lookup_denied:
  "exists (disk (fresh_world\<lparr>disk := (disk fresh_world)(''/app/settings.json'' \<mapsto> Denied)\<rparr>))
      (SETTINGS_FILE (fresh_world\<lparr>disk := (disk fresh_world)(''/app/settings.json'' \<mapsto> Denied)\<rparr>))
     = Inl PermissionError
   \<and> load_settings t1 (fresh_world\<lparr>disk := (disk fresh_world)(''/app/settings.json'' \<mapsto> Denied)\<rparr>)
     = Inl PermissionError
   \<and> SettingsManager_init t1
       (fresh_world\<lparr>disk := (disk fresh_world)(''/app/settings.json'' \<mapsto> Denied)\<rparr>)
     = Inl PermissionError"
  by (simp add: SettingsManager_init_def load_settings_def exists_def SETTINGS_FILE_def
      fresh_world_simps)

section \<open>Restoring and importing\<close>

text \<open>
  C9. When the file holds a JSON object all of whose keys are field names (a strict
  subset of them in particular), \<open>restore_settings\<close> and \<open>import_settings\<close> return true
  and replace the record by a new one: a field that the file names takes the file's
  value (the last one, should the file give the key more than once), a field that it
  does not name takes its default, which is spelt out for each field.
\<close>

theorem restore_import_subset_of_fields:
  assumes "disk w p = Some (File (Doc (JObject kvs)))"
    and "fst ` set kvs \<subseteq> range field_name"
  shows "\<exists>s. restore_settings now p w = (True, w\<lparr>settings := s\<rparr>)
       \<and> import_settings now p w = (True, w\<lparr>settings := s\<rparr>)
       \<and> extra s = []
       \<and> (let pick = (\<lambda>k d. case map_of (rev kvs) k of Some j \<Rightarrow> of_json j | None \<Rightarrow> d) in
       attr s Image_default_layout = pick ''image_default_layout'' (PStr ''vertical'')
       \<and> attr s Image_default_spacing = pick ''image_default_spacing'' (PInt 10)
       \<and> attr s Image_default_quality = pick ''image_default_quality'' (PInt 95)
       \<and> attr s Image_default_resize_mode = pick ''image_default_resize_mode'' (PStr ''none'')
       \<and> attr s Image_default_filter = pick ''image_default_filter'' (PStr ''none'')
       \<and> attr s Image_add_watermark = pick ''image_add_watermark'' (PBool False)
       \<and> attr s Image_watermark_text = pick ''image_watermark_text'' (PStr ([CHR 0xC2, CHR 0xA9] @ '' 2024''))
       \<and> attr s Image_watermark_position = pick ''image_watermark_position'' (PStr ''bottom-right'')
       \<and> attr s Image_watermark_opacity = pick ''image_watermark_opacity'' (PInt 128)
       \<and> attr s Text_default_separator = pick ''text_default_separator'' (PStr ''simple'')
       \<and> attr s Text_default_encoding = pick ''text_default_encoding'' (PStr ''utf-8'')
       \<and> attr s Text_add_line_numbers = pick ''text_add_line_numbers'' (PBool False)
       \<and> attr s Text_add_timestamps = pick ''text_add_timestamps'' (PBool False)
       \<and> attr s Text_strip_whitespace = pick ''text_strip_whitespace'' (PBool False)
       \<and> attr s Text_markdown_export = pick ''text_markdown_export'' (PBool False)
       \<and> attr s Output_use_timestamp = pick ''output_use_timestamp'' (PBool True)
       \<and> attr s Output_auto_overwrite = pick ''output_auto_overwrite'' (PBool False)
       \<and> attr s Output_create_backup = pick ''output_create_backup'' (PBool True)
       \<and> attr s Output_default_directory = pick ''output_default_directory'' (PStr ''output'')
       \<and> attr s Ui_show_file_size = pick ''ui_show_file_size'' (PBool True)
       \<and> attr s Ui_show_statistics = pick ''ui_show_statistics'' (PBool True)
       \<and> attr s Ui_confirm_before_process = pick ''ui_confirm_before_process'' (PBool True)
       \<and> attr s Ui_clear_screen = pick ''ui_clear_screen'' (PBool False)
       \<and> attr s Ui_color_output = pick ''ui_color_output'' (PBool True)
       \<and> attr s Performance_max_workers = pick ''performance_max_workers'' (PInt 4)
       \<and> attr s Performance_chunk_size = pick ''performance_chunk_size'' (PInt 8192)
       \<and> attr s Performance_enable_cache = pick ''performance_enable_cache'' (PBool True)
       \<and> attr s Performance_cache_size_mb = pick ''performance_cache_size_mb'' (PInt 128)
       \<and> attr s Advanced_debug_mode = pick ''advanced_debug_mode'' (PBool False)
       \<and> attr s Advanced_log_level = pick ''advanced_log_level'' (PStr ''INFO'')
       \<and> attr s Advanced_backup_count = pick ''advanced_backup_count'' (PInt 5)
       \<and> attr s Advanced_auto_cleanup = pick ''advanced_auto_cleanup'' (PBool True)
       \<and> attr s Last_modified = pick ''last_modified'' (PStr (isoformat now))
       \<and> attr s Version = pick ''version'' (PStr ''2.0.0''))"
proof -
  let ?s = "\<lparr>attr = (\<lambda>f. case map_of (rev kvs) (field_name f) of
                          Some j \<Rightarrow> of_json j | None \<Rightarrow> default_value now f),
             extra = []\<rparr>"
  from assms(2) have "\<forall>k \<in> fst ` set kvs. field_of_name k \<noteq> None"
    by (simp only: keys_known)
  from from_object_known [OF this, of now] assms(1)
  have "restore_settings now p w = (True, w\<lparr>settings := ?s\<rparr>)"
    and "import_settings now p w = (True, w\<lparr>settings := ?s\<rparr>)"
    by (simp_all add: restore_settings_def import_settings_def read_json_def del: of_json.simps)
  then show ?thesis
    unfolding Let_def by (intro exI [of _ ?s]) (simp cong: option.case_cong)
qed

theorem restore_import_subset_of_fields_witness:
  "\<exists>s. restore_settings t1 ''/tmp/preset.json''
     (fresh_world\<lparr>disk := (disk fresh_world)(''/tmp/preset.json'' \<mapsto>
        File (Doc (JObject [(''image_default_quality'', JInt 50),
                            (''image_default_spacing'', JInt 3),
                            (''image_default_quality'', JInt 60)])))\<rparr>)
   = (True, fresh_world\<lparr>disk := (disk fresh_world)(''/tmp/preset.json'' \<mapsto>
        File (Doc (JObject [(''image_default_quality'', JInt 50),
                            (''image_default_spacing'', JInt 3),
                            (''image_default_quality'', JInt 60)]))),
      settings := s\<rparr>)
   \<and> attr s Image_default_quality = PInt 60
   \<and> attr s Image_default_spacing = PInt 3
   \<and> attr s Image_default_layout = PStr ''vertical''
   \<and> attr s Performance_chunk_size = PInt 8192
   \<and> attr s Last_modified = PStr ''2024-06-01T12:00:05.250000''"
proof -
  let ?kvs = "[(''image_default_quality'', JInt 50), (''image_default_spacing'', JInt 3),
               (''image_default_quality'', JInt 60)]"
  let ?w = "fresh_world\<lparr>disk := (disk fresh_world)(''/tmp/preset.json'' \<mapsto> File (Doc (JObject ?kvs)))\<rparr>"
  have h1: "disk ?w ''/tmp/preset.json'' = Some (File (Doc (JObject ?kvs)))"
    by simp
  have "field_name Image_default_quality \<in> range field_name"
    and "field_name Image_default_spacing \<in> range field_name"
    by (rule rangeI)+
  then have h2: "fst ` set ?kvs \<subseteq> range field_name"
    by simp
  from restore_import_subset_of_fields [of ?w "''/tmp/preset.json''" ?kvs t1, OF h1 h2]
  obtain s where "restore_settings t1 ''/tmp/preset.json'' ?w = (True, ?w\<lparr>settings := s\<rparr>)"
    and "attr s Image_default_quality = PInt 60"
    and "attr s Image_default_spacing = PInt 3"
    and "attr s Image_default_layout = PStr ''vertical''"
    and "attr s Performance_chunk_size = PInt 8192"
    and "attr s Last_modified = PStr (isoformat t1)"
    unfolding Let_def by auto
  then show ?thesis
    by (intro exI [of _ s]) (simp add: isoformat_t1)
qed

text \<open>
  C4, as stated, fails: a file that holds only part of the settings is accepted. Here
  the file names one field; \<open>restore_settings\<close> and \<open>import_settings\<close> return true, the
  quality changes from 95 to 50 and \<open>last_modified\<close> is set to the clock reading.
\<close>

theorem restore_import_partial_file_counterexample:
  "fst (restore_settings t1 ''/tmp/preset.json''
     (fresh_world\<lparr>disk := (disk fresh_world)(''/tmp/preset.json'' \<mapsto>
        File (Doc (JObject [(''image_default_quality'', JInt 50)])))\<rparr>))
   \<and> fst (import_settings t1 ''/tmp/preset.json''
     (fresh_world\<lparr>disk := (disk fresh_world)(''/tmp/preset.json'' \<mapsto>
        File (Doc (JObject [(''image_default_quality'', JInt 50)])))\<rparr>))
   \<and> attr (settings fresh_world) Image_default_quality = PInt 95
   \<and> attr (settings (snd (restore_settings t1 ''/tmp/preset.json''
     (fresh_world\<lparr>disk := (disk fresh_world)(''/tmp/preset.json'' \<mapsto>
        File (Doc (JObject [(''image_default_quality'', JInt 50)])))\<rparr>)))) Image_default_quality
       = PInt 50
   \<and> attr (settings (snd (import_settings t1 ''/tmp/preset.json''
     (fresh_world\<lparr>disk := (disk fresh_world)(''/tmp/preset.json'' \<mapsto>
        File (Doc (JObject [(''image_default_quality'', JInt 50)])))\<rparr>)))) Image_default_quality
       = PInt 50"
proof -
  let ?kvs = "[(''image_default_quality'', JInt 50)]"
  let ?w = "fresh_world\<lparr>disk := (disk fresh_world)(''/tmp/preset.json'' \<mapsto> File (Doc (JObject ?kvs)))\<rparr>"
  let ?s = "\<lparr>attr = (\<lambda>f. case map_of (rev ?kvs) (field_name f) of
                          Some j \<Rightarrow> of_json j | None \<Rightarrow> default_value t1 f),
             extra = []\<rparr>"
  have "\<forall>k \<in> fst ` set ?kvs. field_of_name k \<noteq> None"
    by (simp add: field_of_quality)
  from from_object_known [OF this, of t1]
  have "restore_settings t1 ''/tmp/preset.json'' ?w = (True, ?w\<lparr>settings := ?s\<rparr>)"
    and "import_settings t1 ''/tmp/preset.json'' ?w = (True, ?w\<lparr>settings := ?s\<rparr>)"
    by (simp_all add: restore_settings_def import_settings_def read_json_def del: of_json.simps)
  moreover have "attr (settings fresh_world) Image_default_quality = PInt 95"
    by (simp add: fresh_world_simps UserSettings_default_def)
  ultimately show ?thesis
    by simp
qed

text \<open>
  C4, amended. \<open>restore_settings\<close> and \<open>import_settings\<close> return false and leave the
  whole state as it was when the file is missing, is a directory or cannot be reached,
  holds text that is not JSON, holds a JSON value that is not an object, or holds an
  object with a key that is not a field name. A file that holds a JSON object whose keys
  are all field names, be it all of them or only some, makes them return true and
  replace the record by a new one, built from the file's values (the last one of a key
  that the file gives more than once) and the defaults.
\<close>

theorem restore_import_outcome:
  "restore_settings now p w =
     (case disk w p of
        Some (File (Doc (JObject kvs))) \<Rightarrow>
          if fst ` set kvs \<subseteq> range field_name
          then (True, w\<lparr>settings :=
                  \<lparr>attr = (\<lambda>f. case map_of (rev kvs) (field_name f) of
                                    Some j \<Rightarrow> of_json j | None \<Rightarrow> default_value now f),
                   extra = []\<rparr>\<rparr>)
          else (False, w)
      | _ \<Rightarrow> (False, w))
   \<and> import_settings now p w = restore_settings now p w"
proof -
  have same: "import_settings now p w = restore_settings now p w"
    by (simp add: import_settings_def restore_settings_def)
  have "restore_settings now p w = (False, w)" if "disk w p = None"
    using that by (simp add: restore_settings_def read_json_def)
  moreover have "restore_settings now p w = (False, w)" if "disk w p = Some Directory"
    using that by (simp add: restore_settings_def read_json_def)
  moreover have "restore_settings now p w = (False, w)" if "disk w p = Some Denied"
    using that by (simp add: restore_settings_def read_json_def)
  moreover have "restore_settings now p w = (False, w)" if "disk w p = Some (File Junk)"
    using that by (simp add: restore_settings_def read_json_def)
  moreover have "restore_settings now p w = (False, w)"
    if "disk w p = Some (File (Doc j))" and "\<forall>kvs. j \<noteq> JObject kvs" for j
    using that from_not_object [of j now] by (simp add: restore_settings_def read_json_def)
  moreover have "restore_settings now p w = (False, w)"
    if "disk w p = Some (File (Doc (JObject kvs)))" and "\<not> fst ` set kvs \<subseteq> range field_name" for kvs
  proof -
    from that(2) obtain k where "k \<in> fst ` set kvs" and "field_of_name k = None"
      unfolding keys_known by blast
    from from_object_unknown [OF this, of now] that(1) show ?thesis
      by (simp add: restore_settings_def read_json_def del: of_json.simps)
  qed
  moreover have "restore_settings now p w =
      (True, w\<lparr>settings :=
         \<lparr>attr = (\<lambda>f. case map_of (rev kvs) (field_name f) of
                           Some j \<Rightarrow> of_json j | None \<Rightarrow> default_value now f),
          extra = []\<rparr>\<rparr>)"
    if "disk w p = Some (File (Doc (JObject kvs)))" and "fst ` set kvs \<subseteq> range field_name" for kvs
  proof -
    from that(2) have "\<forall>k \<in> fst ` set kvs. field_of_name k \<noteq> None"
      by (simp only: keys_known)
    from from_object_known [OF this, of now] that(1) show ?thesis
      by (simp add: restore_settings_def read_json_def del: of_json.simps)
  qed
  ultimately have "restore_settings now p w =
     (case disk w p of
        Some (File (Doc (JObject kvs))) \<Rightarrow>
          if fst ` set kvs \<subseteq> range field_name
          then (True, w\<lparr>settings :=
                  \<lparr>attr = (\<lambda>f. case map_of (rev kvs) (field_name f) of
                                    Some j \<Rightarrow> of_json j | None \<Rightarrow> default_value now f),
                   extra = []\<rparr>\<rparr>)
          else (False, w)
      | _ \<Rightarrow> (False, w))"
    by (simp split: option.split node.split content.split json.split)
  with same show ?thesis by simp
qed

theorem restore_import_outcome_witness:
  "restore_settings t1 ''/tmp/missing.json'' fresh_world = (False, fresh_world)
   \<and> import_settings t1 ''/tmp/missing.json'' fresh_world = (False, fresh_world)
   \<and> restore_settings t1 ''/tmp/torn.json''
       (fresh_world\<lparr>disk := (disk fresh_world)(''/tmp/torn.json'' \<mapsto> File Junk)\<rparr>)
     = (False, fresh_world\<lparr>disk := (disk fresh_world)(''/tmp/torn.json'' \<mapsto> File Junk)\<rparr>)
   \<and> restore_settings t1 ''/tmp/other.json''
       (fresh_world\<lparr>disk := (disk fresh_world)(''/tmp/other.json'' \<mapsto>
          File (Doc (JObject [(''not'', JStr ''valid shape'')])))\<rparr>)
     = (False, fresh_world\<lparr>disk := (disk fresh_world)(''/tmp/other.json'' \<mapsto>
          File (Doc (JObject [(''not'', JStr ''valid shape'')])))\<rparr>)
   \<and> fst (restore_settings t1 ''/tmp/twice.json''
       (fresh_world\<lparr>disk := (disk fresh_world)(''/tmp/twice.json'' \<mapsto>
          File (Doc (JObject [(''image_default_quality'', JInt 50),
                              (''image_default_quality'', JInt 60)])))\<rparr>))
   \<and> attr (settings (snd (restore_settings t1 ''/tmp/twice.json''
       (fresh_world\<lparr>disk := (disk fresh_world)(''/tmp/twice.json'' \<mapsto>
          File (Doc (JObject [(''image_default_quality'', JInt 50),
                              (''image_default_quality'', JInt 60)])))\<rparr>)))) Image_default_quality
     = PInt 60
   \<and> attr (settings (snd (restore_settings t1 ''/tmp/twice.json''
       (fresh_world\<lparr>disk := (disk fresh_world)(''/tmp/twice.json'' \<mapsto>
          File (Doc (JObject [(''image_default_quality'', JInt 50),
                              (''image_default_quality'', JInt 60)])))\<rparr>)))) Image_default_spacing
     = PInt 10"
proof -
  have known: "''image_default_quality'' \<in> range field_name"
    using rangeI [of field_name Image_default_quality] by simp
  have "''not'' \<notin> range field_name"
    using field_of_name_range [of "''not''"]
    by (simp add: field_of_name_def dataclass_fields_def)
  with known show ?thesis
    using restore_import_outcome [of t1 "''/tmp/missing.json''" fresh_world]
      restore_import_outcome [of t1 "''/tmp/torn.json''"
        "fresh_world\<lparr>disk := (disk fresh_world)(''/tmp/torn.json'' \<mapsto> File Junk)\<rparr>"]
      restore_import_outcome [of t1 "''/tmp/other.json''"
        "fresh_world\<lparr>disk := (disk fresh_world)(''/tmp/other.json'' \<mapsto>
          File (Doc (JObject [(''not'', JStr ''valid shape'')])))\<rparr>"]
      restore_import_outcome [of t1 "''/tmp/twice.json''"
        "fresh_world\<lparr>disk := (disk fresh_world)(''/tmp/twice.json'' \<mapsto>
          File (Doc (JObject [(''image_default_quality'', JInt 50),
                              (''image_default_quality'', JInt 60)])))\<rparr>"]
    by (simp add: fresh_world_simps)
qed

section \<open>Saving\<close>

lemma save_settings_settings:
  "settings (snd (save_settings now flt w)) =
     (settings w)\<lparr>attr := (attr (settings w))(Last_modified := PStr (isoformat now))\<rparr>"
  by (simp add: save_settings_def setattr_last_modified Let_def split: prod.split sum.split)

lemma save_settings_fst:
  "fst (save_settings now flt w) \<longleftrightarrow>
     (\<exists>u. fst (write_json flt (SETTINGS_FILE w)
               (PDict (asdict (setattr (settings w) ''last_modified'' (PStr (isoformat now)))))
               (disk w)) = Inr u)"
  by (auto simp: save_settings_def SETTINGS_FILE_def Let_def split: prod.split sum.split)

lemma save_settings_disk:
  "disk (snd (save_settings now flt w)) =
     snd (write_json flt (SETTINGS_FILE w)
            (PDict (asdict (setattr (settings w) ''last_modified'' (PStr (isoformat now)))))
            (disk w))"
  by (simp add: save_settings_def SETTINGS_FILE_def Let_def split: prod.split sum.split)

text \<open>
  C3, as stated, fails: opening the file for writing truncates it, so a write that fails
  after the open has already destroyed the prior content. Here the settings file held a
  JSON document before the call and holds no JSON document after it.
\<close>

theorem save_settings_write_failure_counterexample:
  "fst (save_settings t1 WriteFails
          (fresh_world\<lparr>disk := (disk fresh_world)(''/app/settings.json'' \<mapsto>
             File (Doc (JObject [(''version'', JStr ''2.0.0'')])))\<rparr>)) = False
   \<and> disk (snd (save_settings t1 WriteFails
          (fresh_world\<lparr>disk := (disk fresh_world)(''/app/settings.json'' \<mapsto>
             File (Doc (JObject [(''version'', JStr ''2.0.0'')])))\<rparr>))) ''/app/settings.json''
       = Some (File Junk)
   \<and> disk (fresh_world\<lparr>disk := (disk fresh_world)(''/app/settings.json'' \<mapsto>
             File (Doc (JObject [(''version'', JStr ''2.0.0'')])))\<rparr>) ''/app/settings.json''
       = Some (File (Doc (JObject [(''version'', JStr ''2.0.0'')])))"
  by (simp add: save_settings_fst save_settings_disk write_json_def SETTINGS_FILE_def
      fresh_world_simps)

text \<open>
  C3, amended. Whenever the operating system fails the write, \<open>save_settings\<close> returns
  false (it has no error result); when the failure is that the file cannot be opened, the
  files are left as they were.
\<close>

theorem save_settings_failure:
  assumes "flt \<noteq> NoFault"
  shows "fst (save_settings now flt w) = False
       \<and> (flt = OpenFails \<longrightarrow> disk (snd (save_settings now flt w)) = disk w)"
  using assms by (cases flt) (simp_all add: save_settings_fst save_settings_disk write_json_def)

theorem save_settings_failure_witness:
  "OpenFails \<noteq> NoFault
   \<and> fst (save_settings t1 OpenFails fresh_world) = False
   \<and> disk (snd (save_settings t1 OpenFails fresh_world)) = disk fresh_world"
  using save_settings_failure [of OpenFails t1 fresh_world] by simp

text \<open>
  C10. When \<open>save_settings\<close> fails at the open or at the write and returns false, the
  record in memory nevertheless carries the time of the attempt in \<open>last_modified\<close>
  (every other field is as before), so the record has changed unless it carried that
  very time already.
\<close>

theorem failed_save_stamps_last_modified:
  assumes "flt = OpenFails \<or> flt = WriteFails"
  shows "fst (save_settings now flt w) = False
       \<and> attr (settings (snd (save_settings now flt w))) Last_modified = PStr (isoformat now)
       \<and> (\<forall>f. f \<noteq> Last_modified \<longrightarrow>
            attr (settings (snd (save_settings now flt w))) f = attr (settings w) f)
       \<and> (attr (settings w) Last_modified \<noteq> PStr (isoformat now) \<longrightarrow>
            settings (snd (save_settings now flt w)) \<noteq> settings w)"
proof -
  from assms have "fst (save_settings now flt w) = False"
    by (auto simp: save_settings_fst write_json_def)
  moreover have "attr (settings w) Last_modified \<noteq> PStr (isoformat now) \<longrightarrow>
            settings (snd (save_settings now flt w)) \<noteq> settings w"
    by (auto simp: save_settings_settings dest: arg_cong [where f = "\<lambda>s. attr s Last_modified"])
  ultimately show ?thesis
    by (simp add: save_settings_settings)
qed

theorem failed_save_stamps_last_modified_witness:
  "fst (save_settings t1 WriteFails fresh_world) = False
   \<and> attr (settings fresh_world) Last_modified = PStr ''2024-01-15T09:30:00''
   \<and> attr (settings (snd (save_settings t1 WriteFails fresh_world))) Last_modified
       = PStr ''2024-06-01T12:00:05.250000''
   \<and> settings (snd (save_settings t1 WriteFails fresh_world)) \<noteq> settings fresh_world"
  using failed_save_stamps_last_modified [of WriteFails t1 fresh_world]
  by (simp add: fresh_world_simps UserSettings_default_def isoformat_t0 isoformat_t1)

section \<open>The time stamp\<close>

lemma set_setting_attr:
  "attr (settings (snd (set_setting key v w))) f =
     (if field_of_name key = Some f then v else attr (settings w) f)"
  by (auto simp: set_setting_def setattr_def hasattr_def getattr_def split: option.split)

text \<open>
  C7, as stated, fails: \<open>reset_to_defaults\<close> builds a new record, and the default of
  \<open>last_modified\<close> is a factory that reads the clock. Here a manager built at 09:30 on
  15 January is reset at 12:00:05.25 on 1 June.
\<close>

theorem reset_to_defaults_stamps_counterexample:
  "attr (settings fresh_world) Last_modified = PStr ''2024-01-15T09:30:00''
   \<and> attr (settings (reset_to_defaults t1 fresh_world)) Last_modified
       = PStr ''2024-06-01T12:00:05.250000''"
  by (simp add: reset_to_defaults_def fresh_world_simps UserSettings_default_def
      isoformat_t0 isoformat_t1)

text \<open>
  C7, amended. \<open>save_settings\<close> sets \<open>last_modified\<close> to the clock reading of the call,
  and so does \<open>reset_to_defaults\<close>. \<open>set_setting\<close> with a key that is not of the form
  \<^verbatim>\<open>__x__\<close> leaves it as it is unless the key is \<open>last_modified\<close> itself, and then it
  stores the caller's value; \<open>backup_settings\<close>, \<open>export_settings\<close> and
  \<open>validate_settings\<close> leave it as it is.
\<close>

theorem last_modified_frame:
  "(\<not> reserved_name key \<longrightarrow>
      attr (settings (snd (set_setting key v w))) Last_modified =
        (if key = ''last_modified'' then v else attr (settings w) Last_modified))
   \<and> attr (settings (snd (backup_settings now flt w))) Last_modified = attr (settings w) Last_modified
   \<and> attr (settings (snd (export_settings flt p w))) Last_modified = attr (settings w) Last_modified
   \<and> attr (settings (snd (validate_settings w))) Last_modified = attr (settings w) Last_modified
   \<and> attr (settings (snd (save_settings now flt w))) Last_modified = PStr (isoformat now)
   \<and> attr (settings (reset_to_defaults now w)) Last_modified = PStr (isoformat now)"
proof -
  have "field_of_name key = Some Last_modified \<longleftrightarrow> key = ''last_modified''"
    using field_of_name_SomeD [of key Last_modified] field_of_last_modified by auto
  then have "attr (settings (snd (set_setting key v w))) Last_modified =
        (if key = ''last_modified'' then v else attr (settings w) Last_modified)"
    by (simp add: set_setting_attr)
  moreover have "attr (settings (snd (backup_settings now flt w))) Last_modified
      = attr (settings w) Last_modified"
    by (simp add: backup_settings_def Let_def split: prod.split sum.split)
  moreover have "attr (settings (snd (export_settings flt p w))) Last_modified
      = attr (settings w) Last_modified"
    by (simp add: export_settings_def Let_def split: prod.split sum.split)
  moreover have "attr (settings (snd (validate_settings w))) Last_modified
      = attr (settings w) Last_modified"
    by (simp add: validate_settings_def Let_def)
  moreover have "attr (settings (snd (save_settings now flt w))) Last_modified = PStr (isoformat now)"
    by (simp add: save_settings_settings)
  moreover have "attr (settings (reset_to_defaults now w)) Last_modified = PStr (isoformat now)"
    by (simp add: reset_to_defaults_def UserSettings_default_def)
  ultimately show ?thesis by simp
qed

theorem last_modified_frame_witness:
  "\<not> reserved_name ''image_default_quality''
   \<and> attr (settings (snd (set_setting ''image_default_quality'' (PInt 150) fresh_world))) Last_modified
       = PStr ''2024-01-15T09:30:00''
   \<and> attr (settings (snd (backup_settings t1 NoFault fresh_world))) Last_modified
       = PStr ''2024-01-15T09:30:00''
   \<and> attr (settings (snd (save_settings t1 NoFault fresh_world))) Last_modified
       = PStr ''2024-06-01T12:00:05.250000''"
  using last_modified_frame [of "''image_default_quality''" "PInt 150" fresh_world t1 NoFault]
  by (simp add: reserved_name_def fresh_world_simps UserSettings_default_def
      isoformat_t0 isoformat_t1)

section \<open>Access by key\<close>

text \<open>
  C5 holds for the keys that name no attribute of the record object.
\<close>

lemma unknown_key:
  assumes "\<not> hasattr (settings w) key"
  shows "set_setting key v w = (False, w)" and "get_setting key dflt w = dflt"
  using assms
  by (auto simp: set_setting_def get_setting_def getattr_default_def hasattr_def split: sum.splits)

lemma nonexistent_field:
  "set_setting ''nonexistent_field'' v fresh_world = (False, fresh_world)"
  "get_setting ''nonexistent_field'' (PInt 42) fresh_world = PInt 42"
proof -
  have "field_of_name ''nonexistent_field'' = None"
    by (simp add: field_of_name_def dataclass_fields_def)
  then have "\<not> hasattr (settings fresh_world) ''nonexistent_field''"
    by (simp add: hasattr_def getattr_def class_attr_def fresh_world_simps UserSettings_default_def)
  then show "set_setting ''nonexistent_field'' v fresh_world = (False, fresh_world)"
    and "get_setting ''nonexistent_field'' (PInt 42) fresh_world = PInt 42"
    by (rule unknown_key)+
qed

text \<open>
  C5 at the key \<^verbatim>\<open>__doc__\<close>, which is no field. The record object has the attribute, the
  docstring of its class, so \<open>set_setting\<close> stores the value and returns true, and
  \<open>get_setting\<close> returns the docstring where the claim has it return the default 42.
\<close>

theorem doc_key_accepted:
  "field_of_name ''__doc__'' = None
   \<and> set_setting ''__doc__'' (PInt 1) fresh_world
       = (True, fresh_world\<lparr>settings := (settings fresh_world)\<lparr>extra := [(''__doc__'', PInt 1)]\<rparr>\<rparr>)
   \<and> get_setting ''__doc__'' (PInt 42) fresh_world = PStr ''User preferences data class''"
proof -
  have "field_of_name ''__doc__'' = None"
    by (simp add: field_of_name_def dataclass_fields_def)
  then show ?thesis
    by (simp add: set_setting_def get_setting_def getattr_default_def hasattr_def getattr_def
        setattr_def class_attr_def class_doc_def fresh_world_simps UserSettings_default_def)
qed

section \<open>Validation of the record\<close>

lemma add_issue_not_Nil: "add_issue cat msg iss \<noteq> []"
  by (cases iss) (auto split: if_splits)

lemma check_Nil: "check c cat msg b = Inr [] \<longleftrightarrow> b = Inr [] \<and> c = Inr False"
  by (auto simp: check_def add_issue_not_Nil split: sum.splits)

lemma py_or_False: "py_or a b = Inr False \<longleftrightarrow> a = Inr False \<and> b = Inr False"
  by (auto simp: py_or_def split: sum.splits)

text \<open>A comparison is false on the numbers on the other side of the bound, and on \<^verbatim>\<open>NaN\<close>.\<close>

lemma py_lt_False: "py_lt v k = Inr False \<longleftrightarrow> at_least k v \<or> v = PFloat NaN"
proof (cases v)
  case (PFloat x)
  then show ?thesis by (cases x) auto
qed auto

lemma py_gt_False: "py_gt v k = Inr False \<longleftrightarrow> at_most k v \<or> v = PFloat NaN"
proof (cases v)
  case (PFloat x)
  then show ?thesis by (cases x) auto
qed auto

lemma validate_settings_Nil:
  "fst (validate_settings w) = Inr [] \<longleftrightarrow>
      ((at_least 1 (attr (settings w) Image_default_quality)
          \<and> at_most 100 (attr (settings w) Image_default_quality))
         \<or> attr (settings w) Image_default_quality = PFloat NaN)
      \<and> (at_least 0 (attr (settings w) Image_default_spacing)
         \<or> attr (settings w) Image_default_spacing = PFloat NaN)
      \<and> ((at_least 0 (attr (settings w) Image_watermark_opacity)
          \<and> at_most 255 (attr (settings w) Image_watermark_opacity))
         \<or> attr (settings w) Image_watermark_opacity = PFloat NaN)
      \<and> (at_least 1 (attr (settings w) Performance_max_workers)
         \<or> attr (settings w) Performance_max_workers = PFloat NaN)
      \<and> (at_least 0 (attr (settings w) Performance_cache_size_mb)
         \<or> attr (settings w) Performance_cache_size_mb = PFloat NaN)
      \<and> attr (settings w) Advanced_log_level \<in> PStr ` set valid_log_levels"
proof -
  have "fst (validate_settings w) = Inr [] \<longleftrightarrow>
      py_or (py_lt (attr (settings w) Image_default_quality) 1)
            (py_gt (attr (settings w) Image_default_quality) 100) = Inr False
    \<and> py_lt (attr (settings w) Image_default_spacing) 0 = Inr False
    \<and> py_or (py_lt (attr (settings w) Image_watermark_opacity) 0)
            (py_gt (attr (settings w) Image_watermark_opacity) 255) = Inr False
    \<and> py_lt (attr (settings w) Performance_max_workers) 1 = Inr False
    \<and> py_lt (attr (settings w) Performance_cache_size_mb) 0 = Inr False
    \<and> \<not> not_in_levels (attr (settings w) Advanced_log_level)"
    unfolding validate_settings_def Let_def fst_conv check_Nil by blast
  also have "\<dots> \<longleftrightarrow>
      ((at_least 1 (attr (settings w) Image_default_quality)
          \<and> at_most 100 (attr (settings w) Image_default_quality))
         \<or> attr (settings w) Image_default_quality = PFloat NaN)
      \<and> (at_least 0 (attr (settings w) Image_default_spacing)
         \<or> attr (settings w) Image_default_spacing = PFloat NaN)
      \<and> ((at_least 0 (attr (settings w) Image_watermark_opacity)
          \<and> at_most 255 (attr (settings w) Image_watermark_opacity))
         \<or> attr (settings w) Image_watermark_opacity = PFloat NaN)
      \<and> (at_least 1 (attr (settings w) Performance_max_workers)
         \<or> attr (settings w) Performance_max_workers = PFloat NaN)
      \<and> (at_least 0 (attr (settings w) Performance_cache_size_mb)
         \<or> attr (settings w) Performance_cache_size_mb = PFloat NaN)
      \<and> attr (settings w) Advanced_log_level \<in> PStr ` set valid_log_levels"
    unfolding py_or_False py_lt_False py_gt_False not_in_levels_def by auto
  finally show ?thesis .
qed

lemma validate_quality_150:
  "fst (validate_settings
          (w\<lparr>settings := \<lparr>attr = (default_value now)(Image_default_quality := PInt 150),
                           extra = ex\<rparr>\<rparr>))
   = Inr [(''image'', [''Quality must be between 1-100''])]"
  by (simp add: validate_settings_def check_def py_or_def not_in_levels_def valid_log_levels_def)

text \<open>
  C6, as stated, fails on a record that holds \<^verbatim>\<open>NaN\<close>, which a settings file may give
  (\<^verbatim>\<open>json.load\<close> reads it): every comparison with \<^verbatim>\<open>NaN\<close> is false, so no rule finds a
  problem. Here the imported file sets the watermark opacity to \<^verbatim>\<open>NaN\<close>, which is not in
  the range from 0 to 255, and \<open>validate_settings\<close> returns the empty mapping.
\<close>

theorem validate_settings_nan_counterexample:
  "fst (import_settings t1 ''/tmp/preset.json''
     (fresh_world\<lparr>disk := (disk fresh_world)(''/tmp/preset.json'' \<mapsto>
        File (Doc (JObject [(''image_watermark_opacity'', JFloat NaN)])))\<rparr>))
   \<and> attr (settings (snd (import_settings t1 ''/tmp/preset.json''
     (fresh_world\<lparr>disk := (disk fresh_world)(''/tmp/preset.json'' \<mapsto>
        File (Doc (JObject [(''image_watermark_opacity'', JFloat NaN)])))\<rparr>)))) Image_watermark_opacity
       = PFloat NaN
   \<and> fst (validate_settings (snd (import_settings t1 ''/tmp/preset.json''
     (fresh_world\<lparr>disk := (disk fresh_world)(''/tmp/preset.json'' \<mapsto>
        File (Doc (JObject [(''image_watermark_opacity'', JFloat NaN)])))\<rparr>)))) = Inr []
   \<and> \<not> (at_least 0 (PFloat NaN) \<and> at_most 255 (PFloat NaN))"
proof -
  let ?kvs = "[(''image_watermark_opacity'', JFloat NaN)]"
  let ?w = "fresh_world\<lparr>disk := (disk fresh_world)(''/tmp/preset.json'' \<mapsto> File (Doc (JObject ?kvs)))\<rparr>"
  let ?s = "\<lparr>attr = (\<lambda>f. case map_of (rev ?kvs) (field_name f) of
                          Some j \<Rightarrow> of_json j | None \<Rightarrow> default_value t1 f),
             extra = []\<rparr>"
  have "field_of_name ''image_watermark_opacity'' = Some Image_watermark_opacity"
    using field_of_name_name [of Image_watermark_opacity] by simp
  then have "\<forall>k \<in> fst ` set ?kvs. field_of_name k \<noteq> None"
    by simp
  from from_object_known [OF this, of t1]
  have imp: "import_settings t1 ''/tmp/preset.json'' ?w = (True, ?w\<lparr>settings := ?s\<rparr>)"
    by (simp add: import_settings_def read_json_def del: of_json.simps)
  have "fst (validate_settings (?w\<lparr>settings := ?s\<rparr>)) = Inr []"
    unfolding validate_settings_Nil by (simp add: valid_log_levels_def)
  with imp show ?thesis by simp
qed

text \<open>
  C6, amended. \<open>validate_settings\<close> leaves the state as it is. It returns the empty
  mapping exactly when each of the five rules on numbers is met or meets \<^verbatim>\<open>NaN\<close> (the
  quality is from 1 to 100, the spacing not below 0, the watermark opacity from 0 to
  255, the number of workers at least 1, the cache size not below 0) and the log level
  is one of the five names. Starting from the defaults, setting the quality to 150
  makes it return the one entry for \<open>image\<close> with the one message, and setting it back to
  95 makes it return the empty mapping.
\<close>

theorem validate_settings_spec:
  "snd (validate_settings w) = w
   \<and> (fst (validate_settings w) = Inr [] \<longleftrightarrow>
      ((at_least 1 (attr (settings w) Image_default_quality)
          \<and> at_most 100 (attr (settings w) Image_default_quality))
         \<or> attr (settings w) Image_default_quality = PFloat NaN)
      \<and> (at_least 0 (attr (settings w) Image_default_spacing)
         \<or> attr (settings w) Image_default_spacing = PFloat NaN)
      \<and> ((at_least 0 (attr (settings w) Image_watermark_opacity)
          \<and> at_most 255 (attr (settings w) Image_watermark_opacity))
         \<or> attr (settings w) Image_watermark_opacity = PFloat NaN)
      \<and> (at_least 1 (attr (settings w) Performance_max_workers)
         \<or> attr (settings w) Performance_max_workers = PFloat NaN)
      \<and> (at_least 0 (attr (settings w) Performance_cache_size_mb)
         \<or> attr (settings w) Performance_cache_size_mb = PFloat NaN)
      \<and> attr (settings w) Advanced_log_level \<in> PStr ` set valid_log_levels)
   \<and> set_setting ''image_default_quality'' (PInt 150) (reset_to_defaults now w)
       = (True, w\<lparr>settings := \<lparr>attr = (default_value now)(Image_default_quality := PInt 150),
                                 extra = []\<rparr>\<rparr>)
   \<and> fst (validate_settings
            (snd (set_setting ''image_default_quality'' (PInt 150) (reset_to_defaults now w))))
       = Inr [(''image'', [''Quality must be between 1-100''])]
   \<and> fst (validate_settings
            (snd (set_setting ''image_default_quality'' (PInt 95)
               (snd (set_setting ''image_default_quality'' (PInt 150) (reset_to_defaults now w))))))
       = Inr []"
proof -
  have unchanged: "snd (validate_settings w) = w"
    by (simp add: validate_settings_def Let_def)
  have has: "hasattr obj ''image_default_quality''" for obj
    using hasattr_field [of obj Image_default_quality] by simp
  have set150: "set_setting ''image_default_quality'' (PInt 150) (reset_to_defaults now w)
       = (True, w\<lparr>settings := \<lparr>attr = (default_value now)(Image_default_quality := PInt 150),
                                 extra = []\<rparr>\<rparr>)"
    by (simp add: set_setting_def has setattr_quality reset_to_defaults_def UserSettings_default_def)
  have set95: "set_setting ''image_default_quality'' (PInt 95)
       (w\<lparr>settings := \<lparr>attr = (default_value now)(Image_default_quality := PInt 150), extra = []\<rparr>\<rparr>)
       = (True, w\<lparr>settings := \<lparr>attr = (default_value now)(Image_default_quality := PInt 95),
                                 extra = []\<rparr>\<rparr>)"
    by (simp add: set_setting_def has setattr_quality)
  have "fst (validate_settings
          (w\<lparr>settings := \<lparr>attr = (default_value now)(Image_default_quality := PInt 95),
                           extra = []\<rparr>\<rparr>)) = Inr []"
    unfolding validate_settings_Nil by (simp add: valid_log_levels_def)
  with unchanged set150 set95 validate_quality_150 [where w = w and now = now and ex = "[]"]
    validate_settings_Nil [of w]
  show ?thesis by simp
qed

theorem validate_settings_spec_witness:
  "snd (validate_settings fresh_world) = fresh_world
   \<and> fst (validate_settings fresh_world) = Inr []
   \<and> fst (validate_settings
            (snd (set_setting ''image_default_quality'' (PInt 150) (reset_to_defaults t1 fresh_world))))
       = Inr [(''image'', [''Quality must be between 1-100''])]"
proof -
  note spec = validate_settings_spec [of fresh_world t1]
  have ok: "((at_least 1 (attr (settings fresh_world) Image_default_quality)
          \<and> at_most 100 (attr (settings fresh_world) Image_default_quality))
         \<or> attr (settings fresh_world) Image_default_quality = PFloat NaN)
      \<and> (at_least 0 (attr (settings fresh_world) Image_default_spacing)
         \<or> attr (settings fresh_world) Image_default_spacing = PFloat NaN)
      \<and> ((at_least 0 (attr (settings fresh_world) Image_watermark_opacity)
          \<and> at_most 255 (attr (settings fresh_world) Image_watermark_opacity))
         \<or> attr (settings fresh_world) Image_watermark_opacity = PFloat NaN)
      \<and> (at_least 1 (attr (settings fresh_world) Performance_max_workers)
         \<or> attr (settings fresh_world) Performance_max_workers = PFloat NaN)
      \<and> (at_least 0 (attr (settings fresh_world) Performance_cache_size_mb)
         \<or> attr (settings fresh_world) Performance_cache_size_mb = PFloat NaN)
      \<and> attr (settings fresh_world) Advanced_log_level \<in> PStr ` set valid_log_levels"
    by (simp add: fresh_world_simps UserSettings_default_def valid_log_levels_def)
  from spec have "snd (validate_settings fresh_world) = fresh_world"
    by (rule conjunct1)
  moreover from spec ok have "fst (validate_settings fresh_world) = Inr []"
    by blast
  moreover from spec have "fst (validate_settings
            (snd (set_setting ''image_default_quality'' (PInt 150) (reset_to_defaults t1 fresh_world))))
       = Inr [(''image'', [''Quality must be between 1-100''])]"
    by blast
  ultimately show ?thesis by blast
qed

section \<open>Through a file and back\<close>

lemma to_json_asdict:
  assumes "\<forall>f. to_json (attr obj f) = Some (g f)"
  shows "to_json (PDict (asdict obj)) =
           Some (JObject (map (\<lambda>f. (field_name f, g f)) dataclass_fields))"
proof -
  from assms have "map (\<lambda>(k, v). map_option (Pair k) (to_json v)) (asdict obj)
      = map Some (map (\<lambda>f. (field_name f, g f)) dataclass_fields)"
    by (simp add: asdict_def)
  then have "those (map (\<lambda>(k, v). map_option (Pair k) (to_json v)) (asdict obj))
      = Some (map (\<lambda>f. (field_name f, g f)) dataclass_fields)"
    by (simp only: those_map_Some)
  then show ?thesis by simp
qed

lemma distinct_field_names: "distinct (map field_name dataclass_fields)"
  by (simp add: dataclass_fields_def)

lemma of_json_fields:
  "of_json (JObject (map (\<lambda>f. (field_name f, g f)) dataclass_fields))
     = PDict (asdict \<lparr>attr = (\<lambda>f. of_json (g f)), extra = []\<rparr>)"
proof -
  have "distinct (map fst (map (\<lambda>f. (field_name f, of_json (g f))) dataclass_fields))"
    using distinct_field_names by (simp add: comp_def)
  then have "dict_of_pairs (map (\<lambda>f. (field_name f, of_json (g f))) dataclass_fields)
      = map (\<lambda>f. (field_name f, of_json (g f))) dataclass_fields"
    by (rule dict_of_pairs_distinct)
  then show ?thesis
    by (simp add: asdict_def comp_def)
qed

lemma exact_fields:
  assumes "\<forall>f. json_exact (attr obj f)"
  obtains g where "\<forall>f. to_json (attr obj f) = Some (g f)" and "\<forall>f. of_json (g f) = attr obj f"
proof -
  from assms have "\<forall>f. \<exists>j. to_json (attr obj f) = Some j \<and> of_json j = attr obj f"
    by (simp add: to_json_exact)
  then obtain g where "\<forall>f. to_json (attr obj f) = Some (g f) \<and> of_json (g f) = attr obj f"
    by metis
  with that show thesis by blast
qed

lemma restore_fields_doc:
  assumes "disk w p = Some (File (Doc (JObject (map (\<lambda>f. (field_name f, g f)) dataclass_fields))))"
  shows "restore_settings now p w =
           (True, w\<lparr>settings := \<lparr>attr = (\<lambda>f. of_json (g f)), extra = []\<rparr>\<rparr>)"
  using assms
  by (simp add: restore_settings_def read_json_def of_json_fields from_asdict del: of_json.simps)

lemma load_fields_doc:
  assumes "disk w (SETTINGS_FILE w) =
             Some (File (Doc (JObject (map (\<lambda>f. (field_name f, g f)) dataclass_fields))))"
  shows "load_settings now w = Inr \<lparr>attr = (\<lambda>f. of_json (g f)), extra = []\<rparr>"
  using assms
  by (simp add: load_settings_def exists_def read_json_def of_json_fields from_asdict
      del: of_json.simps)

lemma backup_settings_Some:
  assumes "backup_settings now flt w = (Some p, w1)"
    and "\<forall>f. to_json (attr (settings w) f) = Some (g f)"
  shows "w1 = w\<lparr>disk := (disk w)(p \<mapsto>
           File (Doc (JObject (map (\<lambda>f. (field_name f, g f)) dataclass_fields))))\<rparr>"
proof -
  obtain r fs where wr: "write_json flt (backup_path now w) (PDict (asdict (settings w))) (disk w) = (r, fs)"
    by (cases "write_json flt (backup_path now w) (PDict (asdict (settings w))) (disk w)")
  with assms(1) obtain u where r: "r = Inr u" and p: "p = backup_path now w" and w1: "w1 = w\<lparr>disk := fs\<rparr>"
    by (auto simp: backup_settings_def Let_def split: sum.splits)
  from wr r write_json_Inr [of flt "backup_path now w" "PDict (asdict (settings w))" "disk w" u fs]
  obtain j where "to_json (PDict (asdict (settings w))) = Some j"
    and "fs = (disk w)(backup_path now w \<mapsto> File (Doc j))"
    by auto
  with to_json_asdict [OF assms(2)] p w1 show ?thesis by simp
qed

lemma backup_settings_ok:
  assumes "\<forall>f. to_json (attr (settings w) f) = Some (g f)"
    and "disk w (backup_path now w) \<noteq> Some Directory"
    and "disk w (backup_path now w) \<noteq> Some Denied"
  shows "backup_settings now NoFault w =
           (Some (backup_path now w),
            w\<lparr>disk := (disk w)(backup_path now w \<mapsto>
               File (Doc (JObject (map (\<lambda>f. (field_name f, g f)) dataclass_fields))))\<rparr>)"
  using assms(2,3) to_json_asdict [OF assms(1)]
  by (simp add: backup_settings_def write_json_def Let_def del: to_json.simps)

lemma save_settings_True:
  assumes "save_settings now flt w = (True, w1)"
    and "\<forall>f. to_json (((attr (settings w))(Last_modified := PStr (isoformat now))) f) = Some (g f)"
  shows "w1 = w\<lparr>settings := (settings w)\<lparr>attr := (attr (settings w))(Last_modified := PStr (isoformat now))\<rparr>,
                 disk := (disk w)(SETTINGS_FILE w \<mapsto>
                   File (Doc (JObject (map (\<lambda>f. (field_name f, g f)) dataclass_fields))))\<rparr>"
proof -
  let ?s = "(settings w)\<lparr>attr := (attr (settings w))(Last_modified := PStr (isoformat now))\<rparr>"
  obtain r fs where wr: "write_json flt (SETTINGS_FILE w) (PDict (asdict ?s)) (disk w) = (r, fs)"
    by (cases "write_json flt (SETTINGS_FILE w) (PDict (asdict ?s)) (disk w)")
  with assms(1) obtain u where r: "r = Inr u" and w1: "w1 = w\<lparr>settings := ?s, disk := fs\<rparr>"
    by (auto simp: save_settings_def setattr_last_modified SETTINGS_FILE_def Let_def split: sum.splits)
  from wr r write_json_Inr [of flt "SETTINGS_FILE w" "PDict (asdict ?s)" "disk w" u fs]
  obtain j where "to_json (PDict (asdict ?s)) = Some j"
    and "fs = (disk w)(SETTINGS_FILE w \<mapsto> File (Doc j))"
    by auto
  moreover from assms(2) have "\<forall>f. to_json (attr ?s f) = Some (g f)"
    by simp
  from to_json_asdict [OF this]
  have "to_json (PDict (asdict ?s)) = Some (JObject (map (\<lambda>f. (field_name f, g f)) dataclass_fields))" .
  ultimately show ?thesis using w1 by simp
qed

lemma save_settings_ok:
  assumes "\<forall>f. to_json (((attr (settings w))(Last_modified := PStr (isoformat now))) f) = Some (g f)"
    and "disk w (SETTINGS_FILE w) \<noteq> Some Directory"
    and "disk w (SETTINGS_FILE w) \<noteq> Some Denied"
  shows "fst (save_settings now NoFault w)"
proof -
  let ?s = "(settings w)\<lparr>attr := (attr (settings w))(Last_modified := PStr (isoformat now))\<rparr>"
  from assms(1) have "\<forall>f. to_json (attr ?s f) = Some (g f)"
    by simp
  from to_json_asdict [OF this] assms(2,3) show ?thesis
    by (simp add: save_settings_fst setattr_last_modified write_json_def del: to_json.simps)
qed

lemma save_then_load_exact:
  assumes "\<forall>f. json_exact (attr (settings w) f)"
    and "save_settings now flt w = (True, w1)"
  shows "load_settings now' w1 =
           Inr \<lparr>attr = (attr (settings w))(Last_modified := PStr (isoformat now)), extra = []\<rparr>"
proof -
  let ?s = "(settings w)\<lparr>attr := (attr (settings w))(Last_modified := PStr (isoformat now))\<rparr>"
  from assms(1) have "\<forall>f. json_exact (attr ?s f)"
    by simp
  then obtain g where g: "\<forall>f. to_json (attr ?s f) = Some (g f)" and rt: "\<forall>f. of_json (g f) = attr ?s f"
    by (rule exact_fields)
  from g have "\<forall>f. to_json (((attr (settings w))(Last_modified := PStr (isoformat now))) f) = Some (g f)"
    by simp
  from save_settings_True [OF assms(2) this]
  have "disk w1 (SETTINGS_FILE w1) =
          Some (File (Doc (JObject (map (\<lambda>f. (field_name f, g f)) dataclass_fields))))"
    by (simp add: SETTINGS_FILE_def)
  from load_fields_doc [OF this, of now'] rt show ?thesis
    by (simp add: fun_eq_iff)
qed

lemma default_typed: "isinstance (default_value now f) (field_type f)"
  by (cases f) simp_all

text \<open>
  C1, as stated, fails in its last part: the stamp is the clock reading of the save,
  whatever the record carried before. Here the record carries a later date than the
  clock shows (a string, as declared); the save succeeds and the record loaded
  afterwards has the clock's reading, which is the smaller string.
\<close>

theorem save_then_load_earlier_stamp_counterexample:
  "(\<forall>f. isinstance
          (attr (settings (snd (set_setting ''last_modified'' (PStr ''9999-12-31T23:59:59'') fresh_world))) f)
          (field_type f))
   \<and> attr (settings (snd (set_setting ''last_modified'' (PStr ''9999-12-31T23:59:59'') fresh_world)))
        Last_modified = PStr ''9999-12-31T23:59:59''
   \<and> fst (save_settings t1 NoFault
            (snd (set_setting ''last_modified'' (PStr ''9999-12-31T23:59:59'') fresh_world)))
   \<and> load_settings t1 (snd (save_settings t1 NoFault
            (snd (set_setting ''last_modified'' (PStr ''9999-12-31T23:59:59'') fresh_world))))
       = Inr \<lparr>attr = (default_value t0)(Last_modified := PStr ''2024-06-01T12:00:05.250000''),
              extra = []\<rparr>
   \<and> \<not> (''9999-12-31T23:59:59'' \<le> ''2024-06-01T12:00:05.250000'')"
proof -
  let ?w = "fresh_world\<lparr>settings :=
      \<lparr>attr = (default_value t0)(Last_modified := PStr ''9999-12-31T23:59:59''), extra = []\<rparr>\<rparr>"
  have w: "snd (set_setting ''last_modified'' (PStr ''9999-12-31T23:59:59'') fresh_world) = ?w"
    using hasattr_field [of "settings fresh_world" Last_modified]
    by (simp add: set_setting_def setattr_last_modified fresh_world_simps UserSettings_default_def)
  have typed: "\<forall>f. isinstance (attr (settings ?w) f) (field_type f)"
    by (simp add: default_typed)
  have exact: "\<forall>f. json_exact (attr (settings ?w) f)"
    by (simp add: default_exact)
  have "\<forall>f. json_exact (((attr (settings ?w))(Last_modified := PStr (isoformat t1))) f)"
    by (simp add: default_exact)
  then have "\<forall>f. \<exists>j. to_json (((attr (settings ?w))(Last_modified := PStr (isoformat t1))) f) = Some j"
    using to_json_exact by blast
  then obtain g where
    "\<forall>f. to_json (((attr (settings ?w))(Last_modified := PStr (isoformat t1))) f) = Some (g f)"
    by metis
  then have ok: "fst (save_settings t1 NoFault ?w)"
    by (rule save_settings_ok) (simp_all add: fresh_world_simps)
  then have "save_settings t1 NoFault ?w = (True, snd (save_settings t1 NoFault ?w))"
    by (simp add: prod_eq_iff)
  from save_then_load_exact [OF exact this, of t1]
  have "load_settings t1 (snd (save_settings t1 NoFault ?w))
          = Inr \<lparr>attr = (default_value t0)(Last_modified := PStr ''2024-06-01T12:00:05.250000''),
                 extra = []\<rparr>"
    by (simp add: isoformat_t1)
  with typed ok show ?thesis
    unfolding w by simp
qed

text \<open>
  C1, amended. For a record whose fields hold values of their declared types, a
  \<open>save_settings\<close> that succeeds followed by \<open>load_settings\<close> yields a record whose
  every field equals the saved record's, except \<open>last_modified\<close>, which is the clock
  reading that \<open>save_settings\<close> took (and so is not below the prior value exactly when the
  prior value was not above that reading). The load raises nothing.
\<close>

theorem save_then_load:
  assumes "\<forall>f. isinstance (attr (settings w) f) (field_type f)"
    and "save_settings now flt w = (True, w1)"
  shows "\<exists>s. load_settings now' w1 = Inr s
       \<and> (\<forall>f. attr s f =
             (if f = Last_modified then PStr (isoformat now) else attr (settings w) f))"
proof -
  from assms(1) have "\<forall>f. json_exact (attr (settings w) f)"
    by (blast intro: isinstance_exact)
  from save_then_load_exact [OF this assms(2), of now'] show ?thesis
    by simp
qed

theorem save_then_load_witness:
  "(\<forall>f. isinstance (attr (settings fresh_world) f) (field_type f))
   \<and> save_settings t1 NoFault fresh_world = (True, snd (save_settings t1 NoFault fresh_world))
   \<and> (\<exists>s. load_settings t0 (snd (save_settings t1 NoFault fresh_world)) = Inr s
        \<and> (\<forall>f. attr s f =
              (if f = Last_modified then PStr ''2024-06-01T12:00:05.250000''
               else attr (settings fresh_world) f)))"
proof -
  have typed: "\<forall>f. isinstance (attr (settings fresh_world) f) (field_type f)"
    by (simp add: fresh_world_simps UserSettings_default_def default_typed)
  have "\<forall>f. json_exact (((attr (settings fresh_world))(Last_modified := PStr (isoformat t1))) f)"
    by (simp add: fresh_world_simps UserSettings_default_def default_exact)
  then have "\<forall>f. \<exists>j. to_json (((attr (settings fresh_world))(Last_modified := PStr (isoformat t1))) f) = Some j"
    using to_json_exact by blast
  then obtain g where
    "\<forall>f. to_json (((attr (settings fresh_world))(Last_modified := PStr (isoformat t1))) f) = Some (g f)"
    by metis
  then have "fst (save_settings t1 NoFault fresh_world)"
    by (rule save_settings_ok) (simp_all add: fresh_world_simps)
  then have ok: "save_settings t1 NoFault fresh_world = (True, snd (save_settings t1 NoFault fresh_world))"
    by (simp add: prod_eq_iff)
  from save_then_load [OF typed ok, of t0] typed ok show ?thesis
    by (auto simp: isoformat_t1)
qed

section \<open>Backup and restore\<close>

lemma strftime_t1: "strftime_compact t1 = ''20240601_120005''"
  by (simp add: strftime_compact_def zpad_def digits.simps digit_char_def t1_def)

lemma backup_path_t1: "backup_path t1 fresh_world = ''/app/settings_backup_20240601_120005.json''"
  by (simp add: backup_path_def strftime_t1 fresh_world_simps)

lemma field_of_watermark_text:
  "field_of_name ''image_watermark_text'' = Some Image_watermark_text"
  using field_of_name_name [of Image_watermark_text] by simp

text \<open>
  C8, as stated, fails for a value that JSON can write but not give back: a tuple is
  written as an array and read as a list. Here the watermark text holds the tuple
  \<^verbatim>\<open>(1, 2)\<close>; every field can be written, the backup succeeds, and after the restore the
  field holds the list \<^verbatim>\<open>[1, 2]\<close>.
\<close>

theorem backup_restore_tuple_counterexample:
  "(\<forall>f. to_json (attr (settings (snd (set_setting ''image_watermark_text''
            (PTuple [PInt 1, PInt 2]) fresh_world))) f) \<noteq> None)
   \<and> attr (settings (snd (set_setting ''image_watermark_text''
            (PTuple [PInt 1, PInt 2]) fresh_world))) Image_watermark_text = PTuple [PInt 1, PInt 2]
   \<and> fst (backup_settings t1 NoFault (snd (set_setting ''image_watermark_text''
            (PTuple [PInt 1, PInt 2]) fresh_world)))
       = Some ''/app/settings_backup_20240601_120005.json''
   \<and> fst (restore_settings t1 ''/app/settings_backup_20240601_120005.json''
        (snd (backup_settings t1 NoFault (snd (set_setting ''image_watermark_text''
            (PTuple [PInt 1, PInt 2]) fresh_world)))))
   \<and> attr (settings (snd (restore_settings t1 ''/app/settings_backup_20240601_120005.json''
        (snd (backup_settings t1 NoFault (snd (set_setting ''image_watermark_text''
            (PTuple [PInt 1, PInt 2]) fresh_world))))))) Image_watermark_text
       = PList [PInt 1, PInt 2]"
proof -
  let ?p = "''/app/settings_backup_20240601_120005.json''"
  let ?w = "fresh_world\<lparr>settings :=
      \<lparr>attr = (default_value t0)(Image_watermark_text := PTuple [PInt 1, PInt 2]), extra = []\<rparr>\<rparr>"
  let ?g = "(\<lambda>f. the (to_json (default_value t0 f)))(Image_watermark_text := JArray [JInt 1, JInt 2])"
  have w: "snd (set_setting ''image_watermark_text'' (PTuple [PInt 1, PInt 2]) fresh_world) = ?w"
    using hasattr_field [of "settings fresh_world" Image_watermark_text]
    by (simp add: set_setting_def setattr_def field_of_watermark_text fresh_world_simps
        UserSettings_default_def)
  have "to_json (default_value t0 f) = Some (the (to_json (default_value t0 f)))" for f
    using to_json_exact [OF default_exact, of t0 f] by auto
  then have g: "\<forall>f. to_json (attr (settings ?w) f) = Some (?g f)"
    by simp
  then have ser: "\<forall>f. to_json (attr (settings ?w) f) \<noteq> None"
    by simp
  have bp: "backup_path t1 ?w = ?p"
    by (simp add: backup_path_def strftime_t1 fresh_world_simps)
  have nd: "disk ?w (backup_path t1 ?w) \<noteq> Some Directory"
    and na: "disk ?w (backup_path t1 ?w) \<noteq> Some Denied"
    by (simp_all add: fresh_world_simps)
  have bk: "backup_settings t1 NoFault ?w =
      (Some ?p, ?w\<lparr>disk := (disk ?w)(?p \<mapsto>
         File (Doc (JObject (map (\<lambda>f. (field_name f, ?g f)) dataclass_fields))))\<rparr>)"
    using backup_settings_ok [OF g nd na] unfolding bp by simp
  let ?w1 = "?w\<lparr>disk := (disk ?w)(?p \<mapsto>
         File (Doc (JObject (map (\<lambda>f. (field_name f, ?g f)) dataclass_fields))))\<rparr>"
  have "disk ?w1 ?p = Some (File (Doc (JObject (map (\<lambda>f. (field_name f, ?g f)) dataclass_fields))))"
    by simp
  from restore_fields_doc [OF this, of t1]
  have rs: "restore_settings t1 ?p ?w1 =
      (True, ?w1\<lparr>settings := \<lparr>attr = (\<lambda>f. of_json (?g f)), extra = []\<rparr>\<rparr>)" .
  from bk have b1: "fst (backup_settings t1 NoFault ?w) = Some ?p"
    and b2: "snd (backup_settings t1 NoFault ?w) = ?w1"
    by (simp_all only: fst_conv snd_conv)
  from rs have r1: "fst (restore_settings t1 ?p ?w1)"
    by (simp only: fst_conv)
  have "attr (settings (snd (restore_settings t1 ?p ?w1))) Image_watermark_text
      = attr (settings (?w1\<lparr>settings := \<lparr>attr = (\<lambda>f. of_json (?g f)), extra = []\<rparr>\<rparr>))
          Image_watermark_text"
    by (simp only: rs snd_conv)
  also have "\<dots> = PList [PInt 1, PInt 2]"
    by simp
  finally have r2: "attr (settings (snd (restore_settings t1 ?p ?w1))) Image_watermark_text
      = PList [PInt 1, PInt 2]" .
  have a: "attr (settings ?w) Image_watermark_text = PTuple [PInt 1, PInt 2]"
    by simp
  show ?thesis
    unfolding w b2 by (intro conjI) (rule ser a b1 r1 r2)+
qed

text \<open>
  C8, amended. Let every field hold a value that JSON gives back as it was written:
  \<^verbatim>\<open>None\<close>, a \<^verbatim>\<open>bool\<close>, an \<^verbatim>\<open>int\<close>, a \<^verbatim>\<open>str\<close>, or a list or string-keyed dictionary of
  such values (every value of a declared type is one). If \<open>backup_settings\<close> returns a
  path, the record is as before, and \<open>restore_settings\<close> of that path returns true and
  yields the fields of the record as they were at the backup, \<open>last_modified\<close> included:
  at once, or in any later state in which the backup file is still as written, whatever
  has been done to the record in between.
\<close>

theorem backup_then_restore:
  assumes "\<forall>f. json_exact (attr (settings w) f)"
    and "backup_settings now flt w = (Some p, w1)"
  shows "settings w1 = settings w
       \<and> restore_settings now' p w1 =
           (True, w1\<lparr>settings := \<lparr>attr = attr (settings w), extra = []\<rparr>\<rparr>)
       \<and> (\<forall>w2. disk w2 p = disk w1 p \<longrightarrow>
             fst (restore_settings now' p w2)
           \<and> attr (settings (snd (restore_settings now' p w2))) = attr (settings w))"
proof -
  from assms(1) obtain g where g: "\<forall>f. to_json (attr (settings w) f) = Some (g f)"
    and rt: "\<forall>f. of_json (g f) = attr (settings w) f"
    by (rule exact_fields)
  from backup_settings_Some [OF assms(2) g]
  have w1: "w1 = w\<lparr>disk := (disk w)(p \<mapsto>
           File (Doc (JObject (map (\<lambda>f. (field_name f, g f)) dataclass_fields))))\<rparr>" .
  then have doc: "disk w1 p =
      Some (File (Doc (JObject (map (\<lambda>f. (field_name f, g f)) dataclass_fields))))"
    by simp
  from rt have attrs: "(\<lambda>f. of_json (g f)) = attr (settings w)"
    by (simp add: fun_eq_iff)
  have "restore_settings now' p w2 = (True, w2\<lparr>settings := \<lparr>attr = attr (settings w), extra = []\<rparr>\<rparr>)"
    if "disk w2 p = disk w1 p" for w2
    using restore_fields_doc [of w2 p g now'] that doc attrs by simp
  then show ?thesis
    using w1 by simp
qed

theorem backup_then_restore_witness:
  "(\<forall>f. json_exact (attr (settings fresh_world) f))
   \<and> fst (backup_settings t1 NoFault fresh_world) = Some ''/app/settings_backup_20240601_120005.json''
   \<and> attr (settings (snd (set_setting ''image_default_quality'' (PInt 50)
        (snd (backup_settings t1 NoFault fresh_world))))) Image_default_quality = PInt 50
   \<and> attr (settings (snd (restore_settings t0 ''/app/settings_backup_20240601_120005.json''
        (snd (set_setting ''image_default_quality'' (PInt 50)
           (snd (backup_settings t1 NoFault fresh_world))))))) = attr (settings fresh_world)
   \<and> attr (settings fresh_world) Image_default_quality = PInt 95"
proof -
  let ?p = "''/app/settings_backup_20240601_120005.json''"
  let ?w1 = "snd (backup_settings t1 NoFault fresh_world)"
  let ?w2 = "snd (set_setting ''image_default_quality'' (PInt 50) ?w1)"
  have exact: "\<forall>f. json_exact (attr (settings fresh_world) f)"
    by (simp add: fresh_world_simps UserSettings_default_def default_exact)
  then obtain g where g: "\<forall>f. to_json (attr (settings fresh_world) f) = Some (g f)"
    by (rule exact_fields)
  have "disk fresh_world (backup_path t1 fresh_world) \<noteq> Some Directory"
    and "disk fresh_world (backup_path t1 fresh_world) \<noteq> Some Denied"
    by (simp_all add: fresh_world_simps)
  from backup_settings_ok [OF g this]
  have path: "fst (backup_settings t1 NoFault fresh_world) = Some ?p"
    by (simp add: backup_path_t1)
  then have bk: "backup_settings t1 NoFault fresh_world = (Some ?p, ?w1)"
    by (simp add: prod_eq_iff)
  have q: "attr (settings ?w2) Image_default_quality = PInt 50"
    by (simp add: set_setting_attr field_of_quality)
  have "disk ?w2 ?p = disk ?w1 ?p"
    by (simp add: set_setting_def)
  with backup_then_restore [OF exact bk, of t0]
  have "attr (settings (snd (restore_settings t0 ?p ?w2))) = attr (settings fresh_world)"
    by blast
  with exact path q show ?thesis
    by (simp add: fresh_world_simps UserSettings_default_def)
qed

end
